theory Spec2Isabelle
  imports Complex_Main "HOL-Library.Multiset" "HOL-Library.Sublist" "HOL-Library.Product_Lexorder"
begin

section \<open>Numeric cells\<close>

text \<open>
  A numeric cell of a pandas column is a float or NaN. The float is idealised as a real
  number: rounding of binary floating point is outside this model, every formula below is
  exact arithmetic. Python's \<open>None\<close> is the \<open>None\<close> of \<open>option\<close>, so that a value which is
  \<open>None\<close>, NaN or a number has type \<open>cell option\<close>.
\<close>

datatype cell = NaN | Num real

fun notna :: "cell \<Rightarrow> bool" where
  "notna NaN = False"
| "notna (Num x) = True"

fun dropna_vals :: "cell list \<Rightarrow> real list" where
  "dropna_vals [] = []"
| "dropna_vals (NaN # cs) = dropna_vals cs"
| "dropna_vals (Num x # cs) = x # dropna_vals cs"

text \<open>Arithmetic on cells: NaN propagates.\<close>

fun cell_bin :: "(real \<Rightarrow> real \<Rightarrow> real) \<Rightarrow> cell \<Rightarrow> cell \<Rightarrow> cell" where
  "cell_bin f (Num x) (Num y) = Num (f x y)"
| "cell_bin f _ _ = NaN"


text \<open>\<open>fillna(0)\<close> on one cell.\<close>

fun fillna0 :: "cell \<Rightarrow> real" where
  "fillna0 NaN = 0"
| "fillna0 (Num x) = x"




text \<open>Series statistics of pandas, all of which skip NaN: \<open>mean()\<close>, \<open>std(ddof=0)\<close> and
  \<open>quantile(q)\<close> with linear interpolation. Each is NaN on a series with no number.\<close>

definition media :: "real list \<Rightarrow> real" where
  "media xs = sum_list xs / real (length xs)"

definition mean_skipna :: "cell list \<Rightarrow> cell" where
  "mean_skipna cs = (let xs = dropna_vals cs in if xs = [] then NaN else Num (media xs))"


definition quantil :: "real \<Rightarrow> real list \<Rightarrow> real" where
  "quantil q xs =
     (let s = sort xs; n = length s; h = q * real (n - 1); i = nat \<lfloor>h\<rfloor>;
          lo = s ! i; hi = s ! min (Suc i) (n - 1)
      in lo + (hi - lo) * (h - real i))"

definition quantile :: "real \<Rightarrow> cell list \<Rightarrow> cell" where
  "quantile q cs = (let xs = dropna_vals cs in if xs = [] then NaN else Num (quantil q xs))"

section \<open>Strings\<close>

text \<open>
  A Python string is modelled as a list of code points below 256 (Latin-1), which holds
  every column label and month name of the program. \<open>str.split()\<close> and \<open>str.strip()\<close>
  cut at white space; \<open>str.lower()\<close> maps the capital letters of that range.
\<close>

definition isspace :: "char \<Rightarrow> bool" where
  "isspace c = (let n = (of_char c :: nat)
                in (9 \<le> n \<and> n \<le> 13) \<or> (28 \<le> n \<and> n \<le> 32) \<or> n = 133 \<or> n = 160)"

fun split_aux :: "string \<Rightarrow> string \<Rightarrow> string list" where
  "split_aux cur [] = (if cur = [] then [] else [cur])"
| "split_aux cur (c # cs) =
     (if isspace c then (if cur = [] then split_aux [] cs else cur # split_aux [] cs)
      else split_aux (cur @ [c]) cs)"

definition split :: "string \<Rightarrow> string list" where
  "split s = split_aux [] s"

definition strip :: "string \<Rightarrow> string" where
  "strip s = rev (dropWhile isspace (rev (dropWhile isspace s)))"

definition lower_char :: "char \<Rightarrow> char" where
  "lower_char c = (let n = (of_char c :: nat)
                   in if (65 \<le> n \<and> n \<le> 90) \<or> (192 \<le> n \<and> n \<le> 222 \<and> n \<noteq> 215)
                      then char_of (n + 32) else c)"

definition lower :: "string \<Rightarrow> string" where
  "lower s = map lower_char s"

text \<open>\<open>sub in s\<close>.\<close>

fun contains :: "string \<Rightarrow> string \<Rightarrow> bool" where
  "contains sub [] = (sub = [])"
| "contains sub (c # cs) = (prefix sub (c # cs) \<or> contains sub cs)"

text \<open>\<open>" ".join(xs)\<close>.\<close>

fun join_sp :: "string list \<Rightarrow> string" where
  "join_sp [] = []"
| "join_sp [x] = x"
| "join_sp (x # y # ys) = x @ '' '' @ join_sp (y # ys)"

text \<open>\<open>str.replace(",", ".")\<close>.\<close>

definition replace_comma :: "string \<Rightarrow> string" where
  "replace_comma s = map (\<lambda>c. if c = CHR '','' then CHR ''.'' else c) s"

text \<open>The month labels, in the fixed order of \<open>utils.MESES_ORDEM\<close>; \<open>0xE7\<close> is the c
  with cedilla of the third one.\<close>

definition MESES_ORDEM :: "string list" where
  "MESES_ORDEM =
     [''Janeiro'', ''Fevereiro'', ''Mar'' @ [CHR 0xE7] @ ''o'', ''Abril'', ''Maio'',
      ''Junho'', ''Julho'', ''Agosto'', ''Setembro'', ''Outubro'', ''Novembro'', ''Dezembro'']"

text \<open>\<open>MES_NUM_PARA_PT\<close> of tratamento\_dados.py and \<open>MES_NUM_PARA_PT.get(int(n))\<close>.\<close>

definition MES_NUM_PARA_PT :: "(int \<times> string) list" where
  "MES_NUM_PARA_PT =
     [(1, ''Janeiro''), (2, ''Fevereiro''), (3, ''Mar'' @ [CHR 0xE7] @ ''o''),
      (4, ''Abril''), (5, ''Maio''), (6, ''Junho''), (7, ''Julho''), (8, ''Agosto''),
      (9, ''Setembro''), (10, ''Outubro''), (11, ''Novembro''), (12, ''Dezembro'')]"

definition numero_mes_para_nome_pt_br :: "int \<Rightarrow> string option" where
  "numero_mes_para_nome_pt_br n = map_of MES_NUM_PARA_PT n"

text \<open>Position of the first occurrence of a string in a list, the length of the list when
  it does not occur.\<close>

fun indice :: "string \<Rightarrow> string list \<Rightarrow> nat" where
  "indice m [] = 0"
| "indice m (x # xs) = (if m = x then 0 else Suc (indice m xs))"

text \<open>The sort key of a month label under
  \<open>pd.Categorical(..., categories=MESES_ORDEM, ordered=True)\<close>: its position in
  \<open>MESES_ORDEM\<close>, 12 for any other string (a value outside the categories sorts last).\<close>

definition ordem_mes :: "string \<Rightarrow> nat" where
  "ordem_mes m = indice m MESES_ORDEM"

section \<open>Schema normalizer (tratamento\_dados.py)\<close>

text \<open>
  A raw export is a frame of column labels and rows of cells; a cell is its text, or
  \<open>None\<close> when it is empty (NaN). The parsers of pandas are not part of the repository
  and are parameters of the model: \<open>to_datetime\<close> stands for
  \<open>pd.to_datetime(_, errors="coerce", dayfirst=True)\<close> on a whole series (one timestamp
  or \<open>NaT\<close> per element, read by position), \<open>to_numeric\<close> for
  \<open>pd.to_numeric(_, errors="coerce")\<close> on one text, and \<open>nfkd_ascii\<close> for
  \<open>unicodedata.normalize("NFKD", s).encode("ascii", "ignore").decode("ascii")\<close>.
\<close>

datatype error = KeyError string | IndexError | AttributeError

record raw_df =
  colunas :: "string list"
  linhas :: "string option list list"

record amostra =
  dt :: "int option"
  Pot_Elet_KW :: cell
  Pot_Frig_KW :: cell
  COP :: cell

text \<open>\<open>astype(str)\<close> of a cell: an empty cell prints as \<open>nan\<close>.\<close>

fun astype_str :: "string option \<Rightarrow> string" where
  "astype_str None = ''nan''"
| "astype_str (Some s) = s"

fun num_de :: "(string \<Rightarrow> cell) \<Rightarrow> string option \<Rightarrow> cell" where
  "num_de to_numeric None = NaN"
| "num_de to_numeric (Some s) = to_numeric s"

text \<open>\<open>dropna(subset=["dt"]).sort_values("dt")\<close>. The source sorts with the default
  quicksort, which fixes no order among rows of equal timestamp; the model uses the stable
  sort, and no theorem below depends on that choice.\<close>

definition dropna_sort :: "amostra list \<Rightarrow> amostra list" where
  "dropna_sort rows = sort_key (\<lambda>r. the (dt r)) (filter (\<lambda>r. dt r \<noteq> None) rows)"

text \<open>A cell of the frame built from ragged token rows: \<open>None\<close> past the end of a row.\<close>

definition celula_tok :: "(string \<Rightarrow> cell) \<Rightarrow> string list \<Rightarrow> nat \<Rightarrow> cell" where
  "celula_tok to_numeric r j = (if j < length r then to_numeric (r ! j) else NaN)"

text \<open>The loop over the lines: the token lists of at least 6 tokens. The argument is the
  first column of the frame; both callers pass a frame of one column.\<close>

definition linhas_de_tokens :: "string option list \<Rightarrow> string list list" where
  "linhas_de_tokens col = filter (\<lambda>parts. \<not> length parts < 6) (map (\<lambda>c. split (astype_str c)) col)"

text \<open>The frame \<open>parsed\<close> with its four derived columns, before \<open>dropna\<close>: \<open>n\<close> is the
  width of the frame, the length of the longest row.\<close>

definition parsed_tokens ::
  "(string option list \<Rightarrow> int option list) \<Rightarrow> (string \<Rightarrow> cell) \<Rightarrow> string list list \<Rightarrow> amostra list" where
  "parsed_tokens to_datetime to_numeric rows =
     (let n = foldr max (map length rows) 0;
          dts = to_datetime (map (\<lambda>r. Some (r ! 0 @ '' '' @ r ! 1)) rows)
      in map (\<lambda>(r, d). \<lparr>dt = d,
                         Pot_Elet_KW = celula_tok to_numeric r (n - 2),
                         Pot_Frig_KW = celula_tok to_numeric r (n - 3),
                         COP = celula_tok to_numeric r (n - 1)\<rparr>)
             (zip rows dts))"

definition converter_tokens_para_amostras_chiller ::
  "(string option list \<Rightarrow> int option list) \<Rightarrow> (string \<Rightarrow> cell) \<Rightarrow> string option list
   \<Rightarrow> amostra list" where
  "converter_tokens_para_amostras_chiller to_datetime to_numeric col =
     (let rows = linhas_de_tokens col
      in if rows = [] then [] else dropna_sort (parsed_tokens to_datetime to_numeric rows))"

subsection \<open>Tabular exports\<close>

definition is_az09 :: "char \<Rightarrow> bool" where
  "is_az09 c = (let n = (of_char c :: nat) in (97 \<le> n \<and> n \<le> 122) \<or> (48 \<le> n \<and> n \<le> 57))"

definition normalizar_chave_compacta :: "(string \<Rightarrow> string) \<Rightarrow> string \<Rightarrow> string" where
  "normalizar_chave_compacta nfkd_ascii s =
     filter is_az09 (filter (\<lambda>c. \<not> isspace c) (lower (nfkd_ascii s)))"

text \<open>\<open>cols_norm\<close>: each label with its normalised key, in column order.\<close>

definition cols_norm :: "(string \<Rightarrow> string) \<Rightarrow> raw_df \<Rightarrow> (string \<times> string) list" where
  "cols_norm nfkd_ascii df = map (\<lambda>c. (c, normalizar_chave_compacta nfkd_ascii c)) (colunas df)"

text \<open>\<open>achar_por_chave\<close>: the first alternative that is the key of some column gives the
  first column of that key (\<open>inv_norm.setdefault\<close>: the first occurrence wins).\<close>

fun achar_por_chave :: "(string \<times> string) list \<Rightarrow> string list \<Rightarrow> string option" where
  "achar_por_chave cn [] = None"
| "achar_por_chave cn (alt # alts) =
     (case find (\<lambda>(c, nk). nk = alt) cn of
        Some (c, nk) \<Rightarrow> Some c
      | None \<Rightarrow> achar_por_chave cn alts)"

text \<open>\<open>next((c for c, nk in cols_norm.items() if p nk), None)\<close>.\<close>

definition primeiro_que :: "(string \<Rightarrow> bool) \<Rightarrow> (string \<times> string) list \<Rightarrow> string option" where
  "primeiro_que p cn = map_option fst (find (\<lambda>(c, nk). p nk) cn)"

text \<open>\<open>a or b\<close> on column labels: a label found is a non-empty string, so only \<open>None\<close>
  is false.\<close>

fun py_or :: "'a option \<Rightarrow> 'a option \<Rightarrow> 'a option" where
  "py_or (Some x) b = Some x"
| "py_or None b = b"

definition achatado_suspeito :: "(string \<times> string) list \<Rightarrow> bool" where
  "achatado_suspeito cn =
     (list_ex (\<lambda>(c, nk). contains ''data'' nk \<and> contains ''hora'' nk) cn
      \<and> \<not> list_ex (\<lambda>(c, nk). contains ''poteletkw'' nk \<or> contains ''potfrigkw'' nk \<or> nk = ''cop'') cn)"

definition celula_raw :: "string option list \<Rightarrow> nat \<Rightarrow> string option" where
  "celula_raw r i = (if i < length r then r ! i else None)"

text \<open>\<open>df[c]\<close> for a label \<open>c\<close> of the frame, and \<open>df.iloc[:, i]\<close>.\<close>

definition iloc_col :: "raw_df \<Rightarrow> nat \<Rightarrow> string option list" where
  "iloc_col df i = map (\<lambda>r. celula_raw r i) (linhas df)"

definition df_col :: "raw_df \<Rightarrow> string \<Rightarrow> string option list" where
  "df_col df c = iloc_col df (indice c (colunas df))"

text \<open>The heuristic scan of the first five columns: the first whose parsed series has
  \<open>notna().mean() >= 0.5\<close> (false on an empty series, whose mean is NaN).\<close>

fun dt_heuristica ::
  "(string option list \<Rightarrow> int option list) \<Rightarrow> raw_df \<Rightarrow> string list \<Rightarrow> int option list option" where
  "dt_heuristica to_datetime df [] = None"
| "dt_heuristica to_datetime df (c # cs) =
     (let ser = to_datetime (df_col df c)
      in if ser \<noteq> [] \<and> length ser \<le> 2 * length (filter (\<lambda>d. d \<noteq> None) ser) then Some ser
         else dt_heuristica to_datetime df cs)"

definition resolver_dt ::
  "(string option list \<Rightarrow> int option list) \<Rightarrow> (string \<times> string) list \<Rightarrow> raw_df
   \<Rightarrow> error + int option list" where
  "resolver_dt to_datetime cn df =
     (let c_data = py_or (achar_por_chave cn [''data'']) (primeiro_que (prefix ''data'') cn);
          c_hora = py_or (achar_por_chave cn [''hora'']) (primeiro_que (prefix ''hora'') cn);
          c_datahora = achar_por_chave cn [''datahora'', ''datahoradatetime'', ''datetime'',
                                           ''timestamp'', ''datetimestamp'', ''datetimetime'']
      in if c_data \<noteq> None \<and> c_hora \<noteq> None
         then Inr (to_datetime (map (\<lambda>(a, b). Some (astype_str a @ '' '' @ astype_str b))
                                    (zip (df_col df (the c_data)) (df_col df (the c_hora)))))
         else if c_datahora \<noteq> None then Inr (to_datetime (df_col df (the c_datahora)))
         else if c_data \<noteq> None then Inr (to_datetime (df_col df (the c_data)))
         else (case dt_heuristica to_datetime df (take 5 (colunas df)) of
                 Some ser \<Rightarrow> Inr ser
               | None \<Rightarrow> if colunas df = [] then Inl IndexError
                         else Inr (to_datetime (iloc_col df 0))))"

definition eh_frio :: "string \<Rightarrow> bool" where
  "eh_frio nk = list_ex (\<lambda>t. contains t nk)
                  [''frig'', ''frigor'', ''refrig'', ''cool'', ''kwf'', ''kfr'', ''kwt'']"

definition eh_kw :: "string \<Rightarrow> bool" where
  "eh_kw nk = (contains ''kw'' nk \<and> \<not> contains ''kwh'' nk)"

fun primeiro :: "'a list \<Rightarrow> 'a option" where
  "primeiro [] = None"
| "primeiro (x # xs) = Some x"

text \<open>Step 2 of the source: the labels of electric power, cooling power and COP, by exact
  key first and by the substring heuristics when one of the three is still missing.\<close>

definition resolver_potencias ::
  "(string \<times> string) list \<Rightarrow> string option \<times> string option \<times> string option" where
  "resolver_potencias cn =
     (let c_pot_elet = achar_por_chave cn [''poteletkw'', ''potenciaeletricakw'', ''poteletricakw'', ''kwe''];
          c_pot_frig = achar_por_chave cn [''potfrigkw'', ''potenciafrigorificakw'', ''kwf''];
          c_cop = achar_por_chave cn [''cop'']
      in if c_pot_elet = None \<or> c_pot_frig = None \<or> c_cop = None
         then let cands1 = map fst (filter (\<lambda>(c, nk). eh_kw nk \<and> \<not> eh_frio nk
                                \<and> list_ex (\<lambda>h. contains h nk)
                                     [''pot'', ''power'', ''elet'', ''eletr'', ''entrada'', ''demanda'']) cn);
                  cands2 = map fst (filter (\<lambda>(c, nk). eh_kw nk \<and> \<not> eh_frio nk) cn);
                  pot_elet_cands = (if cands1 \<noteq> [] then cands1 else cands2);
                  pot_frig_cands = map fst (filter (\<lambda>(c, nk). eh_kw nk \<and> eh_frio nk) cn);
                  cop_cands = map fst (filter (\<lambda>(c, nk). contains ''cop'' nk
                                \<or> (contains ''coef'' nk \<and> (contains ''perf'' nk \<or> contains ''desempenho'' nk))) cn)
              in (py_or c_pot_elet (primeiro pot_elet_cands),
                  py_or c_pot_frig (primeiro pot_frig_cands),
                  py_or c_cop (primeiro cop_cands))
         else (c_pot_elet, c_pot_frig, c_cop))"

text \<open>The mask of a flattened header line.\<close>

definition header_mask :: "string \<Rightarrow> bool" where
  "header_mask j = (let jn = lower j
                    in contains ''data'' jn \<and> contains ''hora'' jn \<and> contains ''pot'' jn)"

text \<open>Step 3 of the source, the token fallback. \<open>tok_df\<close> is the frame of one column
  handed to the token converter: the non-null cells of each row joined by a blank, without
  the lines that look like a header. On a frame with no row \<open>df.apply(_, axis=1)\<close> gives
  an empty numeric series, on which the \<open>.str\<close> accessor raises.\<close>

definition tok_df :: "raw_df \<Rightarrow> string option list" where
  "tok_df df =
     (let joined = map (\<lambda>r. strip (join_sp (map the (filter (\<lambda>x. x \<noteq> None) r)))) (linhas df)
      in map Some (filter (\<lambda>j. \<not> header_mask j) joined))"

definition fallback_tokens ::
  "(string option list \<Rightarrow> int option list) \<Rightarrow> (string \<Rightarrow> cell) \<Rightarrow> raw_df \<Rightarrow> error + amostra list" where
  "fallback_tokens to_datetime to_numeric df =
     (if linhas df = [] then Inl AttributeError
      else Inr (converter_tokens_para_amostras_chiller to_datetime to_numeric (tok_df df)))"

text \<open>Step 4 of the source: the frame \<open>out\<close> of the four columns, one row per row of the
  export, before \<open>dropna\<close>. A column that was not found is all NaN.\<close>

definition quadro_out ::
  "(string \<Rightarrow> cell) \<Rightarrow> raw_df \<Rightarrow> int option list \<Rightarrow> string \<Rightarrow> string option \<Rightarrow> string option
   \<Rightarrow> amostra list" where
  "quadro_out to_numeric df dts c_pot_elet c_pot_frig c_cop =
     (let n = length (linhas df);
          pot_elet = map (num_de to_numeric) (df_col df c_pot_elet);
          pot_frig = (case c_pot_frig of
                        None \<Rightarrow> replicate n NaN
                      | Some c \<Rightarrow> map (num_de to_numeric) (df_col df c));
          cop = (case c_cop of
                   None \<Rightarrow> replicate n NaN
                 | Some c \<Rightarrow> map (num_de to_numeric) (df_col df c))
      in map (\<lambda>(d, e, f, c). \<lparr>dt = d, Pot_Elet_KW = e, Pot_Frig_KW = f, COP = c\<rparr>)
             (zip dts (zip pot_elet (zip pot_frig cop))))"

definition converter_tabela_para_amostras_chiller ::
  "(string option list \<Rightarrow> int option list) \<Rightarrow> (string \<Rightarrow> cell) \<Rightarrow> (string \<Rightarrow> string) \<Rightarrow> raw_df
   \<Rightarrow> error + amostra list" where
  "converter_tabela_para_amostras_chiller to_datetime to_numeric nfkd_ascii df =
     (let cn = cols_norm nfkd_ascii df
      in case resolver_dt to_datetime cn df of
           Inl e \<Rightarrow> Inl e
         | Inr dts \<Rightarrow>
             (case resolver_potencias cn of
                (c_pot_elet, c_pot_frig, c_cop) \<Rightarrow>
                  if (c_pot_elet = None \<and> c_pot_frig = None \<and> c_cop = None) \<or> achatado_suspeito cn
                  then fallback_tokens to_datetime to_numeric df
                  else if c_pot_elet = None then Inr []
                  else Inr (dropna_sort
                              (quadro_out to_numeric df dts (the c_pot_elet) c_pot_frig c_cop))))"

subsection \<open>Flattened exports: all known columns by position\<close>

definition COLUNAS_CHILLER_COMPLETO :: "string list" where
  "COLUNAS_CHILLER_COMPLETO =
     [''Data'', ''Hora'', ''Arref_m3_h'', ''Arref_bar'', ''Arref_C'', ''Arref_Rotacao_B1'',
      ''Arref_Status_B1'', ''Arref_Status_B2'', ''Arref_Status_B3'',
      ''Alim_m3_h'', ''Alim_bar'', ''Alim_C'', ''Retorno_bar'', ''Retorno_C'',
      ''Status_CH1'', ''Status_CH2'', ''Status_CH3'', ''Status_BAG1'', ''Status_BAG2'',
      ''Status_BAG3'', ''Status_BAG4'',
      ''Pot_Frig_KW'', ''Pot_Elet_KW'', ''COP'']"

text \<open>\<open>tokenizar_linhas\<close>: one string per row, the non-empty cells joined by a blank,
  without the lines that look like a flattened header.\<close>

definition tokenizar_linhas :: "raw_df \<Rightarrow> string list" where
  "tokenizar_linhas df =
     (if linhas df = [] \<or> colunas df = [] then []
      else let joined = map (\<lambda>r. strip (join_sp (filter (\<lambda>x. x \<noteq> [])
                                   (map (\<lambda>c. case c of None \<Rightarrow> [] | Some s \<Rightarrow> s) r))))
                            (linhas df)
           in filter (\<lambda>j. \<not> header_mask j) joined)"

text \<open>A row of the wide frame: the tokens taken by position, with the derived timestamp
  and the three numeric columns as parsed.\<close>

record wide_row =
  campos :: "string list"
  w_dt :: "int option"
  w_Pot_Frig_KW :: cell
  w_Pot_Elet_KW :: cell
  w_COP :: cell

definition campo :: "string list \<Rightarrow> string \<Rightarrow> string" where
  "campo xs c = xs ! indice c COLUNAS_CHILLER_COMPLETO"

definition separar_colunas_tokenizadas ::
  "(string option list \<Rightarrow> int option list) \<Rightarrow> (string \<Rightarrow> cell) \<Rightarrow> raw_df \<Rightarrow> wide_row list" where
  "separar_colunas_tokenizadas to_datetime to_numeric df =
     (let lns = tokenizar_linhas df
      in if lns = [] then []
         else let ok = filter (\<lambda>xs. length COLUNAS_CHILLER_COMPLETO \<le> length xs) (map split lns)
              in if ok = [] then []
                 else let arr = map (take (length COLUNAS_CHILLER_COMPLETO)) ok;
                          dts = to_datetime (map (\<lambda>xs. Some (campo xs ''Data'' @ '' '' @ campo xs ''Hora'')) arr)
                      in map (\<lambda>(xs, d).
                                \<lparr>campos = xs, w_dt = d,
                                 w_Pot_Frig_KW = to_numeric (replace_comma (campo xs ''Pot_Frig_KW'')),
                                 w_Pot_Elet_KW = to_numeric (replace_comma (campo xs ''Pot_Elet_KW'')),
                                 w_COP = to_numeric (replace_comma (campo xs ''COP''))\<rparr>)
                             (zip arr dts))"

section \<open>Sampling-rate estimator (tratamento\_dados.py)\<close>

text \<open>
  A timestamp is a count of nanoseconds since the epoch (the resolution of a pandas
  \<open>Timestamp\<close>); \<open>None\<close> is \<open>NaT\<close>.
\<close>

definition minutos :: "int \<Rightarrow> real" where
  "minutos ns = real_of_int ns / 60000000000"

text \<open>\<open>series_dt.diff().dt.total_seconds().div(60.0).iloc[1:]\<close>: a difference with a
  \<open>NaT\<close> operand is NaN.\<close>

fun delta_min :: "int option \<Rightarrow> int option \<Rightarrow> cell" where
  "delta_min (Some a) (Some b) = Num (minutos (b - a))"
| "delta_min _ _ = NaN"

fun deltas :: "int option list \<Rightarrow> cell list" where
  "deltas (a # b # ts) = delta_min a b # deltas (b # ts)"
| "deltas _ = []"

text \<open>\<open>deltas[(deltas > 0) & (deltas <= 60)]\<close>: a comparison with NaN is false.\<close>

definition deltas_validos :: "int option list \<Rightarrow> real list" where
  "deltas_validos ts = filter (\<lambda>d. 0 < d \<and> d \<le> 60) (dropna_vals (deltas ts))"

text \<open>The median of a non-empty series: the middle of the sorted values, or the mean of
  the two middle ones.\<close>

definition mediana :: "real list \<Rightarrow> real" where
  "mediana xs =
     (let s = sort xs; n = length s
      in if odd n then s ! (n div 2) else (s ! (n div 2 - 1) + s ! (n div 2)) / 2)"

text \<open>\<open>np.argmin\<close>: the first index of a least element.\<close>

fun argmin :: "real list \<Rightarrow> nat" where
  "argmin [] = 0"
| "argmin [x] = 0"
| "argmin (x # y # ys) = (let j = argmin (y # ys) in if x \<le> (y # ys) ! j then 0 else Suc j)"

definition candidatos :: "real list" where
  "candidatos = [1, 5, 10, 15, 30, 60]"

text \<open>The warning logged when the interquartile range of the deltas is large does not
  change the returned step and is left out.\<close>

definition estimar_intervalo_de_amostragem_minutos :: "int option list \<Rightarrow> real" where
  "estimar_intervalo_de_amostragem_minutos series_dt =
     (let ds = deltas_validos series_dt
      in if ds = [] then 1
         else let med = mediana ds
              in candidatos ! argmin (map (\<lambda>c. \<bar>c - med\<bar>) candidatos))"

section \<open>Monthly aggregator (tratamento\_dados.py)\<close>

record amostra_step = amostra +
  step_h :: real

text \<open>The end of \<open>carregar_amostras_chiller\<close>, after the samples were read back from the
  normalised file: every row gets the inferred step, in hours.\<close>

definition carregar_amostras_chiller :: "amostra list \<Rightarrow> amostra_step list" where
  "carregar_amostras_chiller df =
     (if df = [] then []
      else let passo_min = estimar_intervalo_de_amostragem_minutos (map dt df)
           in map (\<lambda>r. \<lparr>dt = dt r, Pot_Elet_KW = Pot_Elet_KW r, Pot_Frig_KW = Pot_Frig_KW r,
                          COP = COP r, step_h = passo_min / 60\<rparr>) df)"

record mensal =
  m_Ano :: int
  m_Mes :: string
  Consumo_KWh :: real
  Horas_Trabalhadas :: real

text \<open>The calendar accessors \<open>.dt.year\<close> and \<open>.dt.month\<close> of pandas are the parameters
  \<open>year_of\<close> and \<open>month_of\<close>. The group key of a row is missing when its timestamp is
  \<open>NaT\<close> or its month number has no label; \<open>groupby\<close> drops such rows.\<close>

definition chave_mes :: "(int \<Rightarrow> int) \<Rightarrow> (int \<Rightarrow> int) \<Rightarrow> amostra_step \<Rightarrow> (int \<times> string) option" where
  "chave_mes year_of month_of r =
     (case dt r of
        None \<Rightarrow> None
      | Some t \<Rightarrow> (case numero_mes_para_nome_pt_br (month_of t) of
                    None \<Rightarrow> None
                  | Some nome \<Rightarrow> Some (year_of t, nome)))"

text \<open>\<open>pot = pd.to_numeric(parsed["Pot_Elet_KW"], errors="coerce").fillna(0)\<close>.\<close>

definition pot :: "amostra_step \<Rightarrow> real" where
  "pot r = fillna0 (Pot_Elet_KW r)"

definition kwh_linha :: "real \<Rightarrow> amostra_step \<Rightarrow> real" where
  "kwh_linha potencia_min_kw r = (if pot r > potencia_min_kw then pot r * step_h r else 0)"

definition h_linha :: "real \<Rightarrow> amostra_step \<Rightarrow> real" where
  "h_linha potencia_min_kw r = (if pot r > potencia_min_kw then step_h r else 0)"

definition agregar_consumo_e_horas_chiller ::
  "(int \<Rightarrow> int) \<Rightarrow> (int \<Rightarrow> int) \<Rightarrow> amostra_step list \<Rightarrow> real \<Rightarrow> mensal list" where
  "agregar_consumo_e_horas_chiller year_of month_of parsed potencia_min_kw =
     (if parsed = [] then []
      else let chaves = remdups (List.map_filter (chave_mes year_of month_of) parsed);
               monthly = map (\<lambda>k. let grupo = filter (\<lambda>r. chave_mes year_of month_of r = Some k) parsed
                                   in \<lparr>m_Ano = fst k, m_Mes = snd k,
                                       Consumo_KWh = sum_list (map (kwh_linha potencia_min_kw) grupo),
                                       Horas_Trabalhadas = sum_list (map (h_linha potencia_min_kw) grupo)\<rparr>)
                             chaves
           in sort_key (\<lambda>m. (m_Ano m, ordem_mes (m_Mes m)))
                (filter (\<lambda>m. m_Mes m \<in> set MESES_ORDEM) monthly))"

section \<open>Robust historical estimator (estimativas\_dados.py)\<close>

text \<open>
  The treated history table: the labels of its columns and its rows. A row is typed with
  the columns the estimator and the validator read; a column counts as present only if its
  label is in \<open>h_columns\<close>, and reading an absent column raises \<open>KeyError\<close>.
\<close>

record hist_row =
  h_Ano :: int
  h_Mes :: string
  h_Consumo :: cell
  h_Horas :: cell
  h_Potencia_Media :: cell
  h_COP_Medio :: cell
  h_Temp :: cell
  h_CO2 :: cell

record hist_df =
  h_columns :: "string list"
  h_rows :: "hist_row list"

definition col_Ano :: string where "col_Ano = ''Ano''"
definition col_Mes :: string where "col_Mes = ''M'' @ [CHR 0xEA] @ ''s''"
definition col_Consumo :: string where "col_Consumo = ''Consumo (KWh)''"
definition col_Horas :: string where "col_Horas = ''Horas Trabalhadas (h)''"
definition col_Potencia :: string where
  "col_Potencia = ''Pot'' @ [CHR 0xEA] @ ''ncia M'' @ [CHR 0xE9] @ ''dia (KW)''"
definition col_COP :: string where "col_COP = ''COP M'' @ [CHR 0xE9] @ ''dio''"
definition col_Temp :: string where
  "col_Temp = ''Temp. M'' @ [CHR 0xE9] @ ''dia ('' @ [CHR 0xBA] @ ''C)''"
definition col_CO2 :: string where "col_CO2 = ''CO2 Emitido (Kg)''"

text \<open>\<open>row[coluna]\<close> for a numeric column.\<close>

definition valor :: "string \<Rightarrow> hist_row \<Rightarrow> cell" where
  "valor c r =
     (if c = col_Consumo then h_Consumo r
      else if c = col_Horas then h_Horas r
      else if c = col_Potencia then h_Potencia_Media r
      else if c = col_COP then h_COP_Medio r
      else if c = col_Temp then h_Temp r
      else if c = col_CO2 then h_CO2 r
      else if c = col_Ano then Num (of_int (h_Ano r))
      else NaN)"

text \<open>Comparisons of cells: false when an operand is NaN.\<close>

fun cell_le :: "cell \<Rightarrow> cell \<Rightarrow> bool" where
  "cell_le (Num x) (Num y) = (x \<le> y)"
| "cell_le _ _ = False"

text \<open>\<open>np.average(values, weights=w)\<close>. The weights below are at least 1 on a non-empty
  series, so their sum is never zero.\<close>

definition np_average :: "cell list \<Rightarrow> int list \<Rightarrow> cell" where
  "np_average cs ws =
     (if list_all notna cs
      then Num (sum_list (map (\<lambda>(x, w). x * of_int w) (zip (dropna_vals cs) ws)) / of_int (sum_list ws))
      else NaN)"

definition min_list_int :: "int list \<Rightarrow> int" where
  "min_list_int xs = foldr min (butlast xs) (last xs)"

text \<open>The IQR fence of a series.\<close>

definition limite_inf :: "cell list \<Rightarrow> cell" where
  "limite_inf vals =
     (let Q1 = quantile (1 / 4) vals; Q3 = quantile (3 / 4) vals; IQR = cell_bin (-) Q3 Q1
      in cell_bin (-) Q1 (cell_bin (*) (Num (3 / 2)) IQR))"

definition limite_sup :: "cell list \<Rightarrow> cell" where
  "limite_sup vals =
     (let Q1 = quantile (1 / 4) vals; Q3 = quantile (3 / 4) vals; IQR = cell_bin (-) Q3 Q1
      in cell_bin (+) Q3 (cell_bin (*) (Num (3 / 2)) IQR))"

text \<open>The selections of \<open>media_historica_corrigida\<close>: \<open>df_mes\<close>, the rows of the month in
  the years before \<open>ano_atual\<close>; the test of the fence, with the quartiles of the series
  \<open>df_mes[coluna]\<close>; and \<open>df_filtrado\<close>, the rows of \<open>df_mes\<close> within the fence.\<close>

definition df_mes_de :: "hist_df \<Rightarrow> string \<Rightarrow> int \<Rightarrow> hist_row list" where
  "df_mes_de df mes ano_atual = filter (\<lambda>r. h_Mes r = mes \<and> h_Ano r < ano_atual) (h_rows df)"

definition na_cerca :: "cell list \<Rightarrow> cell \<Rightarrow> bool" where
  "na_cerca vals v = (cell_le (limite_inf vals) v \<and> cell_le v (limite_sup vals))"

definition filtrar_iqr :: "string \<Rightarrow> hist_row list \<Rightarrow> hist_row list" where
  "filtrar_iqr coluna df_mes =
     filter (\<lambda>r. na_cerca (map (valor coluna) df_mes) (valor coluna r)) df_mes"

definition media_historica_corrigida ::
  "hist_df \<Rightarrow> string \<Rightarrow> string \<Rightarrow> int \<Rightarrow> error + cell option" where
  "media_historica_corrigida df coluna mes ano_atual =
     (if col_Mes \<notin> set (h_columns df) then Inl (KeyError col_Mes)
      else if col_Ano \<notin> set (h_columns df) then Inl (KeyError col_Ano)
      else let df_mes = df_mes_de df mes ano_atual
           in if df_mes = [] \<or> coluna \<notin> set (h_columns df) then Inr None
              else let df_filtrado = filtrar_iqr coluna df_mes
                   in if df_filtrado = [] then Inr None
                      else let ano_min = min_list_int (map h_Ano df_filtrado);
                               Peso = map (\<lambda>r. max 1 ((h_Ano r - ano_min) + 1)) df_filtrado
                           in Inr (Some (np_average (map (valor coluna) df_filtrado) Peso)))"




text \<open>Python's \<open>max(0, x)\<close>: \<open>x\<close> if \<open>x > 0\<close>, else 0 (also for NaN).\<close>

fun py_max0 :: "cell \<Rightarrow> cell" where
  "py_max0 (Num x) = (if x > 0 then Num x else Num 0)"
| "py_max0 NaN = Num 0"




section \<open>Bias-correction feedback loop (estimativas\_dados.py)\<close>

text \<open>The accuracy ledger as read from its file, with the three columns the loader
  reads; \<open>None\<close> is the missing file. With these columns present the \<open>except\<close> branch of
  the source is never taken.\<close>

record prec_row =
  p_Tipo :: string
  p_Mes :: string
  p_Erro_Consumo :: cell

definition vies_passo :: "prec_row list \<Rightarrow> (string \<rightharpoonup> cell) \<Rightarrow> string \<Rightarrow> (string \<rightharpoonup> cell)" where
  "vies_passo df_hist vies_mensal mes =
     (let df_mes = filter (\<lambda>r. p_Mes r = mes) df_hist
      in if length df_mes \<ge> 3 then vies_mensal(mes \<mapsto> mean_skipna (map p_Erro_Consumo df_mes))
         else vies_mensal)"

definition carregar_vies_historico :: "prec_row list option \<Rightarrow> cell option \<times> (string \<rightharpoonup> cell)" where
  "carregar_vies_historico arquivo =
     (case arquivo of
        None \<Rightarrow> (None, Map.empty)
      | Some df \<Rightarrow>
          let df_hist = filter (\<lambda>r. p_Tipo r = ''Real'') df
          in if length df_hist \<ge> 6
             then (Some (mean_skipna (map p_Erro_Consumo df_hist)),
                   foldl (vies_passo df_hist) Map.empty (remdups (map p_Mes df_hist)))
             else (None, Map.empty))"

section \<open>Estimates of the current and of the following year (estimativas\_dados.py)\<close>




text \<open>The bias adjustment, written twice in the source (once under
  \<open>if tipo == "Projetado"\<close>, once for the following year):
  \<open>vies_ajuste = vies_mensal.get(mes_nome, vies_global)\<close> and, when neither it nor the
  expected consumption is \<open>None\<close>, \<open>round(consumo_corrigido * (1 + vies_ajuste / 100), 2)\<close>.\<close>

definition vies_get :: "(string \<rightharpoonup> cell) \<Rightarrow> string \<Rightarrow> cell option \<Rightarrow> cell option" where
  "vies_get vies_mensal mes_nome vies_global =
     (case vies_mensal mes_nome of Some v \<Rightarrow> Some v | None \<Rightarrow> vies_global)"








section \<open>Accuracy validator (validacao\_acuracia.py)\<close>

text \<open>
  A float division of numpy, the one place of the program where a zero denominator
  could reach a division: a non-zero number over zero is an infinity, zero over zero and
  anything with NaN is NaN. The quotient has a type of its own, which has the infinities.
\<close>

datatype ieee = INaN | IInf bool | INum real

fun np_div :: "cell \<Rightarrow> cell \<Rightarrow> ieee" where
  "np_div (Num a) (Num b) =
     (if b \<noteq> 0 then INum (a / b) else if a = 0 then INaN else IInf (0 < a))"
| "np_div _ _ = INaN"

fun vezes_100 :: "ieee \<Rightarrow> ieee" where
  "vezes_100 (INum x) = INum (x * 100)"
| "vezes_100 (IInf s) = IInf s"
| "vezes_100 INaN = INaN"

text \<open>\<open>replace(0, np.nan)\<close> on one cell.\<close>

fun replace_0_nan :: "cell \<Rightarrow> cell" where
  "replace_0_nan (Num x) = (if x = 0 then NaN else Num x)"
| "replace_0_nan NaN = NaN"

text \<open>\<open>str.capitalize()\<close>: the first character in upper case, the rest in lower case. The
  three letters of Latin-1 whose capital is not one character of Latin-1 (0xB5, 0xDF, 0xFF)
  are left as they are; no month label contains them.\<close>

definition upper_char :: "char \<Rightarrow> char" where
  "upper_char c = (let n = (of_char c :: nat)
                   in if (97 \<le> n \<and> n \<le> 122) \<or> (224 \<le> n \<and> n \<le> 254 \<and> n \<noteq> 247)
                      then char_of (n - 32) else c)"

fun capitalize :: "string \<Rightarrow> string" where
  "capitalize [] = []"
| "capitalize (c # cs) = upper_char c # lower cs"

text \<open>The rows of the estimate file with the columns the validator reads.\<close>

record estimado_row =
  s_Ano :: int
  s_Mes :: string
  s_Tipo :: string
  s_Consumo_Esperado :: cell
  s_Horas_Estimadas :: cell
  s_Temp_Estimada :: cell

text \<open>\<open>pd.Categorical(_, categories=MESES_ORDEM, ordered=True)\<close> on one label: a label
  outside the categories becomes a missing value, which sorts last.\<close>

definition categoria :: "string \<Rightarrow> string option" where
  "categoria m = (if m \<in> set MESES_ORDEM then Some m else None)"

fun codigo_categoria :: "string option \<Rightarrow> nat" where
  "codigo_categoria None = length MESES_ORDEM"
| "codigo_categoria (Some m) = ordem_mes m"

record acuracia_row =
  a_Ano :: int
  a_Mes :: "string option"
  a_Tipo :: string
  Consumo_Real :: cell
  Consumo_Estimado :: cell
  Erro_Consumo :: ieee
  Horas_Reais :: cell
  Horas_Estimadas_a :: cell
  Erro_Horas :: ieee
  Temp_Real :: cell
  Temp_Estimada_a :: cell
  Erro_Temp :: ieee
  Potencia_Media :: cell
  Fator_Utilizacao :: ieee
  COP_Medio :: cell
  CO2_Emitido :: cell

text \<open>\<open>(estimado - real) / den * 100\<close> with \<open>den = real.replace(0, np.nan)\<close>.\<close>

definition erro_pct :: "cell \<Rightarrow> cell \<Rightarrow> ieee" where
  "erro_pct estimado medido =
     (let den = replace_0_nan medido
      in vezes_100 (np_div (cell_bin (-) estimado medido) den))"

definition fator_utilizacao :: "cell \<Rightarrow> cell \<Rightarrow> cell \<Rightarrow> ieee" where
  "fator_utilizacao consumo potencia horas =
     (let den_fu = replace_0_nan (cell_bin (*) potencia horas)
      in np_div consumo den_fu)"

text \<open>One row of the inner join with its metrics, under the output labels, the month
  label as the category it is written as.\<close>

definition comparar :: "hist_row \<Rightarrow> estimado_row \<Rightarrow> acuracia_row" where
  "comparar r e =
     \<lparr>a_Ano = h_Ano r, a_Mes = categoria (h_Mes r), a_Tipo = s_Tipo e,
      Consumo_Real = h_Consumo r, Consumo_Estimado = s_Consumo_Esperado e,
      Erro_Consumo = erro_pct (s_Consumo_Esperado e) (h_Consumo r),
      Horas_Reais = h_Horas r, Horas_Estimadas_a = s_Horas_Estimadas e,
      Erro_Horas = erro_pct (s_Horas_Estimadas e) (h_Horas r),
      Temp_Real = h_Temp r, Temp_Estimada_a = s_Temp_Estimada e,
      Erro_Temp = erro_pct (s_Temp_Estimada e) (h_Temp r),
      Potencia_Media = h_Potencia_Media r,
      Fator_Utilizacao = fator_utilizacao (h_Consumo r) (h_Potencia_Media r) (h_Horas r),
      COP_Medio = h_COP_Medio r, CO2_Emitido = h_CO2 r\<rparr>"

text \<open>\<open>df["M\^es"].str.capitalize().str.strip()\<close> on one label.\<close>

definition normalizar_mes :: "string \<Rightarrow> string" where
  "normalizar_mes m = strip (capitalize m)"

text \<open>\<open>pd.merge(df_real, df_estimado, on=["Ano", "M\^es"], how="inner")\<close>: the pairs of
  rows of equal key, in the order of the left rows.\<close>

definition merge_inner :: "hist_row list \<Rightarrow> estimado_row list \<Rightarrow> (hist_row \<times> estimado_row) list" where
  "merge_inner reais estimados =
     concat (map (\<lambda>r. map (\<lambda>e. (r, e))
                         (filter (\<lambda>e. s_Ano e = h_Ano r \<and> s_Mes e = h_Mes r) estimados))
                 reais)"

text \<open>The table that \<open>atualizar_historico_acuracia\<close> writes; \<open>None\<close> when a column it
  reads is absent from the history table: the \<open>KeyError\<close> is caught, a warning is logged
  and nothing is written.\<close>

definition atualizar_historico_acuracia :: "hist_df \<Rightarrow> estimado_row list \<Rightarrow> acuracia_row list option" where
  "atualizar_historico_acuracia df_real df_estimado =
     (if \<not> list_all (\<lambda>c. c \<in> set (h_columns df_real))
             [col_Mes, col_Ano, col_Consumo, col_Horas, col_Temp, col_Potencia, col_COP, col_CO2]
      then None
      else let reais = map (\<lambda>r. r\<lparr>h_Mes := normalizar_mes (h_Mes r)\<rparr>) (h_rows df_real);
               estimados = map (\<lambda>e. e\<lparr>s_Mes := normalizar_mes (s_Mes e)\<rparr>) df_estimado;
               df_comparado = map (\<lambda>(r, e). comparar r e) (merge_inner reais estimados)
           in Some (sort_key (\<lambda>a. (a_Ano a, codigo_categoria (a_Mes a))) df_comparado))"

section \<open>Example inputs\<close>

text \<open>Parsers for the examples: they agree with pandas on the few texts they know and
  give \<open>NaT\<close> and NaN on every other text. The timestamps are 1 January 2024, 00:00:00
  and 00:05:00, and 1 February 2024, 00:00:00.\<close>

definition data_ex :: "string \<Rightarrow> int option" where
  "data_ex s =
     (if s = ''01/01/2024 00:00:00'' then Some 1704067200000000000
      else if s = ''01/01/2024 00:05:00'' then Some 1704067500000000000
      else if s = ''01/02/2024 00:00:00'' then Some 1706745600000000000
      else None)"

definition to_datetime_ex :: "string option list \<Rightarrow> int option list" where
  "to_datetime_ex = map (\<lambda>c. case c of None \<Rightarrow> None | Some s \<Rightarrow> data_ex s)"

definition to_numeric_ex :: "string \<Rightarrow> cell" where
  "to_numeric_ex s =
     (if s = ''10'' then Num 10 else if s = ''20'' then Num 20 else if s = ''30'' then Num 30
      else if s = ''3'' then Num 3 else if s = ''1.5'' then Num (3 / 2) else NaN)"

definition linha_ex :: string where
  "linha_ex = ''01/01/2024 00:00:00 7 30 10 3''"

definition col_ex :: "string option list" where
  "col_ex = [Some ''01/01/2024 00:05:00 7 30 20 3'', Some ''lixo lixo 1 2 3 4'', Some ''curta'',
             None, Some linha_ex]"

definition df_ex :: raw_df where
  "df_ex = \<lparr>colunas = [''Data'', ''Hora'', ''Pot_Elet_KW''],
            linhas = [[Some ''01/01/2024'', Some ''00:05:00'', Some ''20''],
                      [Some ''01/01/2024'', Some ''xx'', Some ''30''],
                      [Some ''01/01/2024'', Some ''00:00:00'', Some ''10'']]\<rparr>"

text \<open>A flattened export of one column: a line of 25 tokens with a decimal comma, a line of
  23 tokens, and a short line.\<close>

definition linha25_ex :: string where
  "linha25_ex = ''01/01/2024 00:05:00 a b c d e f g h i j k l m n o p q r s 30 1,5 3 extra''"

definition linha23_ex :: string where
  "linha23_ex = ''01/01/2024 00:00:00 a b c d e f g h i j k l m n o p q r 30 10 3''"



definition linha24_nat_ex :: string where
  "linha24_nat_ex = ''lixo lixo a b c d e f g h i j k l m n o p q r s 30 10 3''"

definition df_nat_ex :: raw_df where
  "df_nat_ex = \<lparr>colunas = [''Coluna1''], linhas = [[Some linha24_nat_ex]]\<rparr>"

text \<open>Calendar accessors for the examples, right on the timestamps of January and
  February 2024.\<close>

definition ano_ex :: "int \<Rightarrow> int" where
  "ano_ex t = 2024"

definition mes_ex :: "int \<Rightarrow> int" where
  "mes_ex t = (if t < 1706745600000000000 then 1 else 2)"

text \<open>Samples: 10 kW and 20 kW five minutes apart in January, and a sample of unknown
  power in February.\<close>

definition amostras_ex :: "amostra list" where
  "amostras_ex =
     [\<lparr>dt = Some 1704067200000000000, Pot_Elet_KW = Num 10, Pot_Frig_KW = Num 30, COP = Num 3\<rparr>,
      \<lparr>dt = Some 1704067500000000000, Pot_Elet_KW = Num 20, Pot_Frig_KW = Num 30, COP = Num 3\<rparr>,
      \<lparr>dt = Some 1706745600000000000, Pot_Elet_KW = NaN, Pot_Frig_KW = NaN, COP = NaN\<rparr>]"

definition amostra_nan_ex :: "amostra list" where
  "amostra_nan_ex =
     [\<lparr>dt = Some 1704067200000000000, Pot_Elet_KW = NaN, Pot_Frig_KW = NaN, COP = NaN\<rparr>]"

text \<open>A history table: two years of January, three of February.\<close>

definition colunas_hist :: "string list" where
  "colunas_hist = [col_Ano, col_Mes, col_Consumo, col_Horas, col_Potencia, col_COP, col_Temp, col_CO2]"

definition linha_hist :: "int \<Rightarrow> string \<Rightarrow> real \<Rightarrow> real \<Rightarrow> real \<Rightarrow> hist_row" where
  "linha_hist a m consumo horas temp =
     \<lparr>h_Ano = a, h_Mes = m, h_Consumo = Num consumo, h_Horas = Num horas,
      h_Potencia_Media = Num 2, h_COP_Medio = Num 3, h_Temp = Num temp, h_CO2 = NaN\<rparr>"


text \<open>Accuracy ledgers: one of six validated rows (three of January, two of February, one
  of April) and a projected row, and one of three validated rows of January only.\<close>

definition prec :: "string \<Rightarrow> string \<Rightarrow> real \<Rightarrow> prec_row" where
  "prec tipo m erro = \<lparr>p_Tipo = tipo, p_Mes = m, p_Erro_Consumo = Num erro\<rparr>"

definition ledger_ex :: "prec_row list" where
  "ledger_ex =
     [prec ''Real'' ''Janeiro'' 10, prec ''Real'' ''Janeiro'' 20, prec ''Projetado'' ''Janeiro'' 99,
      prec ''Real'' ''Fevereiro'' (- 5), prec ''Real'' ''Janeiro'' 30, prec ''Real'' ''Fevereiro'' (- 7),
      prec ''Real'' ''Abril'' 12]"

definition ledger3_ex :: "prec_row list" where
  "ledger3_ex =
     [prec ''Real'' ''Janeiro'' 10, prec ''Real'' ''Janeiro'' 20, prec ''Real'' ''Janeiro'' 30]"



text \<open>A month without consumption and its estimate, whose month label is in lower case
  with a trailing blank.\<close>

definition df_zero_ex :: hist_df where
  "df_zero_ex = \<lparr>h_columns = colunas_hist, h_rows = [linha_hist 2021 ''Janeiro'' 0 0 20]\<rparr>"

definition estimados_ex :: "estimado_row list" where
  "estimados_ex =
     [\<lparr>s_Ano = 2021, s_Mes = ''janeiro '', s_Tipo = ''Real'', s_Consumo_Esperado = Num 5,
       s_Horas_Estimadas = Num 8, s_Temp_Estimada = Num 22\<rparr>,
      \<lparr>s_Ano = 2022, s_Mes = ''Janeiro'', s_Tipo = ''Real'', s_Consumo_Esperado = Num 5,
       s_Horas_Estimadas = Num 8, s_Temp_Estimada = Num 22\<rparr>]"


text \<open>Temperature series of April: two years, the same with a far value added, four years,
  and the same with a far value added.\<close>

definition serie2_ex :: "hist_row list" where
  "serie2_ex = [linha_hist 2021 ''Abril'' 1 1 10, linha_hist 2022 ''Abril'' 1 1 20]"

definition serie4_ex :: "hist_row list" where
  "serie4_ex = [linha_hist 2019 ''Abril'' 1 1 10, linha_hist 2020 ''Abril'' 1 1 11,
                linha_hist 2021 ''Abril'' 1 1 12, linha_hist 2022 ''Abril'' 1 1 13]"

definition df_serie2_ex :: hist_df where
  "df_serie2_ex = \<lparr>h_columns = colunas_hist, h_rows = serie2_ex\<rparr>"

definition df_serie2_outlier_ex :: hist_df where
  "df_serie2_outlier_ex =
     \<lparr>h_columns = colunas_hist, h_rows = linha_hist 2020 ''Abril'' 1 1 1000 # serie2_ex\<rparr>"

definition df_serie4_ex :: hist_df where
  "df_serie4_ex = \<lparr>h_columns = colunas_hist, h_rows = serie4_ex\<rparr>"

definition df_serie4_outlier_ex :: hist_df where
  "df_serie4_outlier_ex =
     \<lparr>h_columns = colunas_hist,
      h_rows = take 2 serie4_ex @ linha_hist 2018 ''Abril'' 1 1 1000 # drop 2 serie4_ex\<rparr>"

section \<open>Theorems\<close>



subsection \<open>Sampling-rate estimator\<close>









lemma mediana_um: "mediana [x] = x"
  by (simp add: mediana_def)



subsection \<open>Schema normalizer: order and null timestamps\<close>

lemma dropna_sort_sorted: "sorted (map (\<lambda>r. the (dt r)) (dropna_sort rows))"
  by (simp add: dropna_sort_def)

lemma dropna_sort_notnull: "r \<in> set (dropna_sort rows) \<Longrightarrow> dt r \<noteq> None"
  by (simp add: dropna_sort_def)

lemma dropna_sort_mset: "mset (dropna_sort rows) = filter_mset (\<lambda>r. dt r \<noteq> None) (mset rows)"
  by (simp add: dropna_sort_def)

lemma distinct_dt_the:
  assumes "\<forall>r \<in> set out. dt r \<noteq> None"
  shows "distinct (map (\<lambda>r. the (dt r)) out) \<longleftrightarrow> distinct (map dt out)"
proof -
  have "inj_on the (set (map dt out))"
  proof (rule inj_onI)
    fix a b :: "int option"
    assume a: "a \<in> set (map dt out)" and b: "b \<in> set (map dt out)" and e: "the a = the b"
    from a assms have "a \<noteq> None" by auto
    moreover from b assms have "b \<noteq> None" by auto
    ultimately show "a = b" using e by (cases a; cases b) simp_all
  qed
  then have "distinct (map the (map dt out)) \<longleftrightarrow> distinct (map dt out)"
    using distinct_map [of the "map dt out"] by blast
  then show ?thesis by (simp only: map_map comp_def)
qed

lemma dropna_sort_strict:
  "sorted_wrt (<) (map (\<lambda>r. the (dt r)) (dropna_sort rows)) \<longleftrightarrow> distinct (map dt (dropna_sort rows))"
proof -
  have "distinct (map (\<lambda>r. the (dt r)) (dropna_sort rows)) \<longleftrightarrow> distinct (map dt (dropna_sort rows))"
    by (rule distinct_dt_the) (simp add: dropna_sort_notnull)
  then show ?thesis
    using dropna_sort_sorted [of rows] by (simp add: strict_sorted_iff)
qed



lemmas str_eval = split_def isspace_def lower_def lower_char_def is_az09_def char_of_def bit_Suc_0_iff

lemma linhas_dup: "linhas_de_tokens [Some linha_ex, Some linha_ex] =
   [[''01/01/2024'', ''00:00:00'', ''7'', ''30'', ''10'', ''3''], [''01/01/2024'', ''00:00:00'', ''7'', ''30'', ''10'', ''3'']]"
  by (simp add: linhas_de_tokens_def linha_ex_def str_eval)

lemma parsed_dup: "parsed_tokens to_datetime_ex to_numeric_ex 
   [[''01/01/2024'', ''00:00:00'', ''7'', ''30'', ''10'', ''3''], [''01/01/2024'', ''00:00:00'', ''7'', ''30'', ''10'', ''3'']]
   = [\<lparr>dt = Some 1704067200000000000, Pot_Elet_KW = Num 10, Pot_Frig_KW = Num 30, COP = Num 3\<rparr>,
      \<lparr>dt = Some 1704067200000000000, Pot_Elet_KW = Num 10, Pot_Frig_KW = Num 30, COP = Num 3\<rparr>]"
  by (simp add: parsed_tokens_def to_datetime_ex_def data_ex_def to_numeric_ex_def celula_tok_def)

lemma conv_dup: "converter_tokens_para_amostras_chiller to_datetime_ex to_numeric_ex [Some linha_ex, Some linha_ex]
   = [\<lparr>dt = Some 1704067200000000000, Pot_Elet_KW = Num 10, Pot_Frig_KW = Num 30, COP = Num 3\<rparr>,
      \<lparr>dt = Some 1704067200000000000, Pot_Elet_KW = Num 10, Pot_Frig_KW = Num 30, COP = Num 3\<rparr>]"
  by (simp add: converter_tokens_para_amostras_chiller_def linhas_dup parsed_dup dropna_sort_def)

lemma linhas_col_ex: "linhas_de_tokens col_ex =
   [[''01/01/2024'', ''00:05:00'', ''7'', ''30'', ''20'', ''3''], [''lixo'', ''lixo'', ''1'', ''2'', ''3'', ''4''],
    [''01/01/2024'', ''00:00:00'', ''7'', ''30'', ''10'', ''3'']]"
  by (simp add: linhas_de_tokens_def col_ex_def linha_ex_def str_eval)

lemma parsed_col_ex: "parsed_tokens to_datetime_ex to_numeric_ex (linhas_de_tokens col_ex) =
   [\<lparr>dt = Some 1704067500000000000, Pot_Elet_KW = Num 20, Pot_Frig_KW = Num 30, COP = Num 3\<rparr>,
    \<lparr>dt = None, Pot_Elet_KW = Num 3, Pot_Frig_KW = NaN, COP = NaN\<rparr>,
    \<lparr>dt = Some 1704067200000000000, Pot_Elet_KW = Num 10, Pot_Frig_KW = Num 30, COP = Num 3\<rparr>]"
  by (simp add: linhas_col_ex parsed_tokens_def to_datetime_ex_def data_ex_def to_numeric_ex_def celula_tok_def)

lemma conv_col_ex: "converter_tokens_para_amostras_chiller to_datetime_ex to_numeric_ex col_ex =
   [\<lparr>dt = Some 1704067200000000000, Pot_Elet_KW = Num 10, Pot_Frig_KW = Num 30, COP = Num 3\<rparr>,
    \<lparr>dt = Some 1704067500000000000, Pot_Elet_KW = Num 20, Pot_Frig_KW = Num 30, COP = Num 3\<rparr>]"
  by (simp add: converter_tokens_para_amostras_chiller_def Let_def parsed_col_ex dropna_sort_def)
     (simp add: linhas_col_ex)

lemma cols_norm_ex: "cols_norm id df_ex = [(''Data'', ''data''), (''Hora'', ''hora''), (''Pot_Elet_KW'', ''poteletkw'')]"
  by (simp add: cols_norm_def df_ex_def normalizar_chave_compacta_def str_eval)

lemma resolver_dt_ex: "resolver_dt to_datetime_ex [(''Data'', ''data''), (''Hora'', ''hora''), (''Pot_Elet_KW'', ''poteletkw'')] df_ex
   = Inr [Some 1704067500000000000, None, Some 1704067200000000000]"
  by (simp add: resolver_dt_def df_col_def iloc_col_def celula_raw_def df_ex_def to_datetime_ex_def data_ex_def)

lemma resolver_pot_ex: "resolver_potencias [(''Data'', ''data''), (''Hora'', ''hora''), (''Pot_Elet_KW'', ''poteletkw'')]
   = (Some ''Pot_Elet_KW'', None, None)"
  by (simp add: resolver_potencias_def eh_kw_def eh_frio_def)

lemma achatado_ex: "\<not> achatado_suspeito [(''Data'', ''data''), (''Hora'', ''hora''), (''Pot_Elet_KW'', ''poteletkw'')]"
  by (simp add: achatado_suspeito_def)

lemma tabela_ex: "converter_tabela_para_amostras_chiller to_datetime_ex to_numeric_ex id df_ex =
   Inr [\<lparr>dt = Some 1704067200000000000, Pot_Elet_KW = Num 10, Pot_Frig_KW = NaN, COP = NaN\<rparr>,
        \<lparr>dt = Some 1704067500000000000, Pot_Elet_KW = Num 20, Pot_Frig_KW = NaN, COP = NaN\<rparr>]"
  by (simp add: converter_tabela_para_amostras_chiller_def cols_norm_ex resolver_dt_ex resolver_pot_ex achatado_ex)
     (simp add: quadro_out_def df_ex_def df_col_def iloc_col_def celula_raw_def to_numeric_ex_def dropna_sort_def)


lemma dropna_sort_nil: "dropna_sort [] = []"
  by (simp add: dropna_sort_def)

lemma dropna_sort_ex_nil: "\<exists>rows. [] = dropna_sort rows"
  by (rule exI [of _ "[]"]) (simp add: dropna_sort_nil)

lemma converter_tokens_dropna_sort:
  "converter_tokens_para_amostras_chiller td tn col =
     dropna_sort (parsed_tokens td tn (linhas_de_tokens col))"
  by (simp add: converter_tokens_para_amostras_chiller_def Let_def parsed_tokens_def dropna_sort_nil)

lemma converter_tabela_dropna_sort:
  "converter_tabela_para_amostras_chiller td tn nfkd df = Inr out \<Longrightarrow> \<exists>rows. out = dropna_sort rows"
  unfolding converter_tabela_para_amostras_chiller_def fallback_tokens_def Let_def
  by (auto split: sum.splits prod.splits if_splits
           simp: converter_tokens_dropna_sort dropna_sort_ex_nil)

text \<open>The frame of which the tabular converter keeps the rows with a timestamp.\<close>

lemma converter_tabela_quadro:
  assumes "converter_tabela_para_amostras_chiller td tn nfkd df = Inr out"
    and "resolver_dt td (cols_norm nfkd df) df = Inr dts"
    and "resolver_potencias (cols_norm nfkd df) = (ce, cf, cc)"
  shows "out = dropna_sort
           (if (ce = None \<and> cf = None \<and> cc = None) \<or> achatado_suspeito (cols_norm nfkd df)
            then parsed_tokens td tn (linhas_de_tokens (tok_df df))
            else if ce = None then []
            else quadro_out tn df dts (the ce) cf cc)"
  using assms
  unfolding converter_tabela_para_amostras_chiller_def fallback_tokens_def Let_def
  by (auto split: if_splits simp: converter_tokens_dropna_sort dropna_sort_nil)

lemma converter_tabela_resolvido:
  assumes "converter_tabela_para_amostras_chiller td tn nfkd df = Inr out"
  shows "\<exists>dts. resolver_dt td (cols_norm nfkd df) df = Inr dts"
  using assms unfolding converter_tabela_para_amostras_chiller_def Let_def
  by (cases "resolver_dt td (cols_norm nfkd df) df") simp_all

lemma df_col_length: "length (df_col df c) = length (linhas df)"
  by (simp add: df_col_def iloc_col_def)

lemma map_dt_zip4:
  "length ds = n \<Longrightarrow> length es = n \<Longrightarrow> length fs = n \<Longrightarrow> length cs = n \<Longrightarrow>
   map dt (map (\<lambda>(d, e, f, c). \<lparr>dt = d, Pot_Elet_KW = e, Pot_Frig_KW = f, COP = c\<rparr>)
             (zip ds (zip es (zip fs cs)))) = ds"
proof (induction ds arbitrary: n es fs cs)
  case Nil
  show ?case by simp
next
  case (Cons d ds)
  then obtain e es' f fs' c cs' where "es = e # es'" "fs = f # fs'" "cs = c # cs'"
    by (cases es; cases fs; cases cs) auto
  with Cons show ?case by (cases n) auto
qed

lemma quadro_out_dt:
  assumes "length dts = length (linhas df)"
  shows "map dt (quadro_out tn df dts ce cf cc) = dts"
  unfolding quadro_out_def Let_def
  by (rule map_dt_zip4 [OF assms]) (simp_all add: df_col_length split: option.splits)

lemma map_fst_zip_eq: "length xs = length ys \<Longrightarrow> map (\<lambda>(r, d). g d) (zip xs ys) = map g ys"
  by (induction xs ys rule: list_induct2) simp_all

lemma parsed_tokens_dt:
  assumes "length (td (map (\<lambda>r. Some (r ! 0 @ '' '' @ r ! 1)) rows)) = length rows"
  shows "map dt (parsed_tokens td tn rows) = td (map (\<lambda>r. Some (r ! 0 @ '' '' @ r ! 1)) rows)"
proof -
  let ?dts = "td (map (\<lambda>r. Some (r ! 0 @ '' '' @ r ! 1)) rows)"
  have "map dt (parsed_tokens td tn rows) = map (\<lambda>(r, d). d) (zip rows ?dts)"
    unfolding parsed_tokens_def Let_def map_map
    by (rule map_cong) auto
  also have "\<dots> = ?dts"
    using map_fst_zip_eq [of rows ?dts "\<lambda>d. d"] assms by simp
  finally show ?thesis .
qed

lemma dropna_sort_dt_mset:
  "mset (map dt (dropna_sort rows)) = filter_mset (\<lambda>d. d \<noteq> None) (mset (map dt rows))"
proof -
  have "mset (map dt (dropna_sort rows)) = image_mset dt (mset (dropna_sort rows))"
    by simp
  also have "\<dots> = image_mset dt (filter_mset (\<lambda>r. dt r \<noteq> None) (mset rows))"
    by (simp only: dropna_sort_mset)
  also have "\<dots> = filter_mset (\<lambda>d. d \<noteq> None) (image_mset dt (mset rows))"
    by (simp add: filter_mset_image_mset comp_def)
  finally show ?thesis by simp
qed

text \<open>
  C1. The output of either converter is sorted ascending by timestamp and has no
  row with a null timestamp, for every export in any row order. Rows of equal timestamp
  are all kept: the output holds, as often as they occur, exactly the rows of the frame
  built from the export whose timestamp was parsed (the frame of the token lines on the
  token path and on the fallback of the tabular converter, the frame of one row per row of
  the export on the tabular path, no row when no electric power column is found), so its
  timestamps are the parsed timestamps of the export, each as often as it was parsed. The
  timestamps are strictly ascending exactly when they are pairwise distinct.
\<close>

theorem normalizador_ordena_sem_nulos:
  "sorted (map (\<lambda>r. the (dt r)) (converter_tokens_para_amostras_chiller td tn col))
   \<and> (\<forall>r \<in> set (converter_tokens_para_amostras_chiller td tn col). dt r \<noteq> None)
   \<and> (sorted_wrt (<) (map (\<lambda>r. the (dt r)) (converter_tokens_para_amostras_chiller td tn col))
        \<longleftrightarrow> distinct (map dt (converter_tokens_para_amostras_chiller td tn col)))
   \<and> mset (converter_tokens_para_amostras_chiller td tn col) =
        filter_mset (\<lambda>r. dt r \<noteq> None) (mset (parsed_tokens td tn (linhas_de_tokens col)))
   \<and> (length (td (map (\<lambda>r. Some (r ! 0 @ '' '' @ r ! 1)) (linhas_de_tokens col)))
          = length (linhas_de_tokens col) \<longrightarrow>
        mset (map dt (converter_tokens_para_amostras_chiller td tn col)) =
          filter_mset (\<lambda>d. d \<noteq> None)
            (mset (td (map (\<lambda>r. Some (r ! 0 @ '' '' @ r ! 1)) (linhas_de_tokens col)))))
   \<and> (converter_tabela_para_amostras_chiller td tn nfkd df = Inr out \<longrightarrow>
        sorted (map (\<lambda>r. the (dt r)) out)
        \<and> (\<forall>r \<in> set out. dt r \<noteq> None)
        \<and> (sorted_wrt (<) (map (\<lambda>r. the (dt r)) out) \<longleftrightarrow> distinct (map dt out))
        \<and> (\<exists>dts'. resolver_dt td (cols_norm nfkd df) df = Inr dts')
        \<and> (resolver_dt td (cols_norm nfkd df) df = Inr dts
             \<and> resolver_potencias (cols_norm nfkd df) = (ce, cf, cc) \<longrightarrow>
            mset out = filter_mset (\<lambda>r. dt r \<noteq> None)
              (mset (if (ce = None \<and> cf = None \<and> cc = None) \<or> achatado_suspeito (cols_norm nfkd df)
                     then parsed_tokens td tn (linhas_de_tokens (tok_df df))
                     else if ce = None then []
                     else quadro_out tn df dts (the ce) cf cc))
            \<and> (\<not> ((ce = None \<and> cf = None \<and> cc = None) \<or> achatado_suspeito (cols_norm nfkd df))
                 \<and> ce \<noteq> None \<and> length dts = length (linhas df) \<longrightarrow>
                 mset (map dt out) = filter_mset (\<lambda>d. d \<noteq> None) (mset dts))))"
proof (intro conjI impI)
  let ?out = "converter_tokens_para_amostras_chiller td tn col"
  show "sorted (map (\<lambda>r. the (dt r)) ?out)"
    by (simp only: converter_tokens_dropna_sort dropna_sort_sorted)
  show "\<forall>r \<in> set ?out. dt r \<noteq> None"
    using dropna_sort_notnull by (auto simp only: converter_tokens_dropna_sort)
  show "sorted_wrt (<) (map (\<lambda>r. the (dt r)) ?out) \<longleftrightarrow> distinct (map dt ?out)"
    by (simp only: converter_tokens_dropna_sort dropna_sort_strict)
  show "mset ?out = filter_mset (\<lambda>r. dt r \<noteq> None) (mset (parsed_tokens td tn (linhas_de_tokens col)))"
    by (simp only: converter_tokens_dropna_sort dropna_sort_mset)
next
  assume "length (td (map (\<lambda>r. Some (r ! 0 @ '' '' @ r ! 1)) (linhas_de_tokens col)))
          = length (linhas_de_tokens col)"
  from parsed_tokens_dt [of td "linhas_de_tokens col" tn, OF this]
  show "mset (map dt (converter_tokens_para_amostras_chiller td tn col)) =
          filter_mset (\<lambda>d. d \<noteq> None)
            (mset (td (map (\<lambda>r. Some (r ! 0 @ '' '' @ r ! 1)) (linhas_de_tokens col))))"
    by (simp only: converter_tokens_dropna_sort dropna_sort_dt_mset)
next
  assume conv: "converter_tabela_para_amostras_chiller td tn nfkd df = Inr out"
  then obtain rows where out: "out = dropna_sort rows"
    using converter_tabela_dropna_sort by blast
  show "sorted (map (\<lambda>r. the (dt r)) out)"
    unfolding out by (rule dropna_sort_sorted)
  show "\<forall>r \<in> set out. dt r \<noteq> None"
    unfolding out using dropna_sort_notnull by blast
  show "sorted_wrt (<) (map (\<lambda>r. the (dt r)) out) \<longleftrightarrow> distinct (map dt out)"
    unfolding out by (rule dropna_sort_strict)
  show "\<exists>dts'. resolver_dt td (cols_norm nfkd df) df = Inr dts'"
    by (rule converter_tabela_resolvido [OF conv])
next
  assume conv: "converter_tabela_para_amostras_chiller td tn nfkd df = Inr out"
    and r: "resolver_dt td (cols_norm nfkd df) df = Inr dts
             \<and> resolver_potencias (cols_norm nfkd df) = (ce, cf, cc)"
  from r have rd: "resolver_dt td (cols_norm nfkd df) df = Inr dts"
    and rp: "resolver_potencias (cols_norm nfkd df) = (ce, cf, cc)" by blast+
  note q = converter_tabela_quadro [OF conv rd rp]
  show "mset out = filter_mset (\<lambda>r. dt r \<noteq> None)
              (mset (if (ce = None \<and> cf = None \<and> cc = None) \<or> achatado_suspeito (cols_norm nfkd df)
                     then parsed_tokens td tn (linhas_de_tokens (tok_df df))
                     else if ce = None then []
                     else quadro_out tn df dts (the ce) cf cc))"
    by (subst q) (rule dropna_sort_mset)
next
  assume conv: "converter_tabela_para_amostras_chiller td tn nfkd df = Inr out"
    and r: "resolver_dt td (cols_norm nfkd df) df = Inr dts
             \<and> resolver_potencias (cols_norm nfkd df) = (ce, cf, cc)"
    and d: "\<not> ((ce = None \<and> cf = None \<and> cc = None) \<or> achatado_suspeito (cols_norm nfkd df))
                 \<and> ce \<noteq> None \<and> length dts = length (linhas df)"
  from r have rd: "resolver_dt td (cols_norm nfkd df) df = Inr dts"
    and rp: "resolver_potencias (cols_norm nfkd df) = (ce, cf, cc)" by blast+
  from d have d1: "\<not> ((ce = None \<and> cf = None \<and> cc = None) \<or> achatado_suspeito (cols_norm nfkd df))"
    and d2: "ce \<noteq> None" and len: "length dts = length (linhas df)" by blast+
  have "out = dropna_sort (quadro_out tn df dts (the ce) cf cc)"
    using converter_tabela_quadro [OF conv rd rp] d1 d2 by (simp only: if_False)
  then show "mset (map dt out) = filter_mset (\<lambda>d. d \<noteq> None) (mset dts)"
    by (simp only: dropna_sort_dt_mset quadro_out_dt [OF len])
qed

theorem normalizador_ordena_sem_nulos_witness:
  "converter_tokens_para_amostras_chiller to_datetime_ex to_numeric_ex col_ex =
     [\<lparr>dt = Some 1704067200000000000, Pot_Elet_KW = Num 10, Pot_Frig_KW = Num 30, COP = Num 3\<rparr>,
      \<lparr>dt = Some 1704067500000000000, Pot_Elet_KW = Num 20, Pot_Frig_KW = Num 30, COP = Num 3\<rparr>]
   \<and> sorted (map (\<lambda>r. the (dt r)) (converter_tokens_para_amostras_chiller to_datetime_ex to_numeric_ex col_ex))
   \<and> converter_tabela_para_amostras_chiller to_datetime_ex to_numeric_ex id df_ex =
     Inr [\<lparr>dt = Some 1704067200000000000, Pot_Elet_KW = Num 10, Pot_Frig_KW = NaN, COP = NaN\<rparr>,
          \<lparr>dt = Some 1704067500000000000, Pot_Elet_KW = Num 20, Pot_Frig_KW = NaN, COP = NaN\<rparr>]
   \<and> resolver_dt to_datetime_ex (cols_norm id df_ex) df_ex
       = Inr [Some 1704067500000000000, None, Some 1704067200000000000]
   \<and> mset [Some 1704067200000000000, Some 1704067500000000000 :: int option]
       = filter_mset (\<lambda>d. d \<noteq> None)
           (mset [Some 1704067500000000000, None, Some 1704067200000000000])
   \<and> sorted_wrt (<) [1704067200000000000, 1704067500000000000 :: int]"
proof -
  note t = normalizador_ordena_sem_nulos [of to_datetime_ex to_numeric_ex col_ex id df_ex
          "[\<lparr>dt = Some 1704067200000000000, Pot_Elet_KW = Num 10, Pot_Frig_KW = NaN, COP = NaN\<rparr>,
            \<lparr>dt = Some 1704067500000000000, Pot_Elet_KW = Num 20, Pot_Frig_KW = NaN, COP = NaN\<rparr>]"
          "[Some 1704067500000000000, None, Some 1704067200000000000]"
          "Some ''Pot_Elet_KW''" None None]
  have rd: "resolver_dt to_datetime_ex (cols_norm id df_ex) df_ex
       = Inr [Some 1704067500000000000, None, Some 1704067200000000000]"
    by (simp only: cols_norm_ex resolver_dt_ex)
  have rp: "resolver_potencias (cols_norm id df_ex) = (Some ''Pot_Elet_KW'', None, None)"
    by (simp only: cols_norm_ex resolver_pot_ex)
  have d: "\<not> ((Some ''Pot_Elet_KW'' = None \<and> (None :: string option) = None \<and> (None :: string option) = None)
                \<or> achatado_suspeito (cols_norm id df_ex))
           \<and> Some ''Pot_Elet_KW'' \<noteq> None
           \<and> length [Some 1704067500000000000, None, Some (1704067200000000000 :: int)] = length (linhas df_ex)"
    using achatado_ex by (simp add: cols_norm_ex) (simp add: df_ex_def)
  from t tabela_ex rd rp d
  have m: "mset (map dt [\<lparr>dt = Some 1704067200000000000, Pot_Elet_KW = Num 10, Pot_Frig_KW = NaN, COP = NaN\<rparr>,
            \<lparr>dt = Some 1704067500000000000, Pot_Elet_KW = Num 20, Pot_Frig_KW = NaN, COP = NaN\<rparr>])
       = filter_mset (\<lambda>d. d \<noteq> None) (mset [Some 1704067500000000000, None, Some 1704067200000000000])"
    by blast
  from t have s: "sorted (map (\<lambda>r. the (dt r)) (converter_tokens_para_amostras_chiller to_datetime_ex to_numeric_ex col_ex))"
    by blast
  have m': "mset [Some 1704067200000000000, Some 1704067500000000000 :: int option]
       = filter_mset (\<lambda>d. d \<noteq> None)
           (mset [Some 1704067500000000000, None, Some 1704067200000000000])"
    using m by simp
  have o: "sorted_wrt (<) [1704067200000000000, 1704067500000000000 :: int]" by simp
  show ?thesis
    by (intro conjI conv_col_ex s tabela_ex rd m' o)
qed

theorem normalizador_duplicados_counterexample:
  "map dt (converter_tokens_para_amostras_chiller to_datetime_ex to_numeric_ex
             [Some linha_ex, Some linha_ex])
     = [Some 1704067200000000000, Some 1704067200000000000]
   \<and> \<not> distinct (map dt (converter_tokens_para_amostras_chiller to_datetime_ex to_numeric_ex
                            [Some linha_ex, Some linha_ex]))"
  by (simp add: conv_dup)


subsection \<open>Flattened exports: parsing by position\<close>

lemma COLUNAS_length: "length COLUNAS_CHILLER_COMPLETO = 24"
  by (simp add: COLUNAS_CHILLER_COMPLETO_def)

lemma campo_posicoes:
  "campo xs ''Data'' = xs ! 0" "campo xs ''Hora'' = xs ! 1"
  "campo xs ''Pot_Frig_KW'' = xs ! 21" "campo xs ''Pot_Elet_KW'' = xs ! 22" "campo xs ''COP'' = xs ! 23"
  by (simp_all add: campo_def COLUNAS_CHILLER_COMPLETO_def eval_nat_numeral)


lemma separar_eq:
  "separar_colunas_tokenizadas td tn df =
     (let arr = map (take 24) (filter (\<lambda>xs. 24 \<le> length xs) (map split (tokenizar_linhas df)))
      in map (\<lambda>(xs, d). \<lparr>campos = xs, w_dt = d,
                                 w_Pot_Frig_KW = tn (replace_comma (xs ! 21)),
                                 w_Pot_Elet_KW = tn (replace_comma (xs ! 22)),
                                 w_COP = tn (replace_comma (xs ! 23))\<rparr>)
             (zip arr (td (map (\<lambda>xs. Some (xs ! 0 @ '' '' @ xs ! 1)) arr))))"
  by (simp add: separar_colunas_tokenizadas_def Let_def COLUNAS_length campo_posicoes)



















lemma split_linha23:
  "split linha23_ex = [''01/01/2024'', ''00:00:00'', ''a'', ''b'', ''c'', ''d'', ''e'', ''f'', ''g'', ''h'',
     ''i'', ''j'', ''k'', ''l'', ''m'', ''n'', ''o'', ''p'', ''q'', ''r'', ''30'', ''10'', ''3'']"
  by (simp add: linha23_ex_def split_def isspace_def)

lemma split_linha24_nat:
  "split linha24_nat_ex = [''lixo'', ''lixo'', ''a'', ''b'', ''c'', ''d'', ''e'', ''f'', ''g'', ''h'',
     ''i'', ''j'', ''k'', ''l'', ''m'', ''n'', ''o'', ''p'', ''q'', ''r'', ''s'', ''30'', ''10'', ''3'']"
  by (simp add: linha24_nat_ex_def split_def isspace_def)


lemma header_mask_exs:
  "\<not> header_mask linha25_ex" "\<not> header_mask linha23_ex" "\<not> header_mask linha24_nat_ex"
  "\<not> header_mask ''curta''" "\<not> header_mask []"
  by (simp_all add: header_mask_def linha25_ex_def linha23_ex_def linha24_nat_ex_def lower_def
        lower_char_def char_of_def bit_Suc_0_iff)

lemma strip_exs:
  "strip linha25_ex = linha25_ex" "strip linha23_ex = linha23_ex" "strip linha24_nat_ex = linha24_nat_ex"
  "strip ''curta'' = ''curta''" "strip [] = []"
  by (simp_all add: strip_def linha25_ex_def linha23_ex_def linha24_nat_ex_def isspace_def)

lemma nonempty_exs: "linha25_ex \<noteq> []" "linha23_ex \<noteq> []" "linha24_nat_ex \<noteq> []"
  by (simp_all add: linha25_ex_def linha23_ex_def linha24_nat_ex_def)



lemma tokenizar_nat_ex: "tokenizar_linhas df_nat_ex = [linha24_nat_ex]"
  by (simp add: tokenizar_linhas_def df_nat_ex_def header_mask_exs strip_exs nonempty_exs)




text \<open>Two facts about the neighbours of the positional parser. The token converter, to
  which the transition falls back when no line has 24 tokens, keeps the line of 23 tokens
  and reads its last three tokens. The positional parser keeps a line whose timestamp does
  not parse, with a null timestamp.\<close>

lemma converter_tokens_linha23:
  "converter_tokens_para_amostras_chiller to_datetime_ex to_numeric_ex [Some linha23_ex] =
     [\<lparr>dt = Some 1704067200000000000, Pot_Elet_KW = Num 10, Pot_Frig_KW = Num 30, COP = Num 3\<rparr>]"
  by (simp add: converter_tokens_para_amostras_chiller_def linhas_de_tokens_def split_linha23
        parsed_tokens_def to_datetime_ex_def data_ex_def to_numeric_ex_def celula_tok_def
        dropna_sort_def)

lemma separar_mantem_nat:
  "map w_dt (separar_colunas_tokenizadas to_datetime_ex to_numeric_ex df_nat_ex) = [None]"
  by (simp add: separar_eq tokenizar_nat_ex split_linha24_nat to_datetime_ex_def data_ex_def)

subsection \<open>Monthly aggregator\<close>

lemma numero_mes_em_ordem:
  "numero_mes_para_nome_pt_br n = Some nome \<Longrightarrow> nome \<in> set MESES_ORDEM"
  by (auto simp: numero_mes_para_nome_pt_br_def MES_NUM_PARA_PT_def MESES_ORDEM_def split: if_splits)

lemma chave_mes_em_ordem: "chave_mes yo mo r = Some (a, b) \<Longrightarrow> b \<in> set MESES_ORDEM"
  by (auto simp: chave_mes_def numero_mes_em_ordem split: option.splits)

lemma set_map_filter: "set (List.map_filter f xs) = {k. \<exists>r \<in> set xs. f r = Some k}"
  by (auto simp: List.map_filter_def image_iff) force

lemma agregar_eq:
  "agregar_consumo_e_horas_chiller yo mo parsed thr =
     sort_key (\<lambda>m. (m_Ano m, ordem_mes (m_Mes m)))
       (map (\<lambda>k. \<lparr>m_Ano = fst k, m_Mes = snd k,
      Consumo_KWh = sum_list (map (kwh_linha thr) (filter (\<lambda>r. chave_mes yo mo r = Some k) parsed)),
      Horas_Trabalhadas = sum_list (map (h_linha thr) (filter (\<lambda>r. chave_mes yo mo r = Some k) parsed))\<rparr>)
         (remdups (List.map_filter (chave_mes yo mo) parsed)))"
proof (cases "parsed = []")
  case True
  then show ?thesis
    by (simp add: agregar_consumo_e_horas_chiller_def List.map_filter_def)
next
  case False
  have "filter (\<lambda>m. m_Mes m \<in> set MESES_ORDEM)
          (map (\<lambda>k. \<lparr>m_Ano = fst k, m_Mes = snd k,
      Consumo_KWh = sum_list (map (kwh_linha thr) (filter (\<lambda>r. chave_mes yo mo r = Some k) parsed)),
      Horas_Trabalhadas = sum_list (map (h_linha thr) (filter (\<lambda>r. chave_mes yo mo r = Some k) parsed))\<rparr>)
         (remdups (List.map_filter (chave_mes yo mo) parsed)))
        = map (\<lambda>k. \<lparr>m_Ano = fst k, m_Mes = snd k,
      Consumo_KWh = sum_list (map (kwh_linha thr) (filter (\<lambda>r. chave_mes yo mo r = Some k) parsed)),
      Horas_Trabalhadas = sum_list (map (h_linha thr) (filter (\<lambda>r. chave_mes yo mo r = Some k) parsed))\<rparr>)
         (remdups (List.map_filter (chave_mes yo mo) parsed))"
    by (rule filter_True) (auto simp: set_map_filter chave_mes_em_ordem)
  with False show ?thesis
    by (simp add: agregar_consumo_e_horas_chiller_def Let_def)
qed


lemma distinct_map_sort_key:
  "distinct (map f (sort_key k xs)) \<longleftrightarrow> distinct (map f xs)"
proof -
  have "mset (map f (sort_key k xs)) = mset (map f xs)" by simp
  then show ?thesis by (rule mset_eq_imp_distinct_iff)
qed

lemma agregar_chaves:
  "map (\<lambda>m. (m_Ano m, m_Mes m)) (map (\<lambda>k. \<lparr>m_Ano = fst k, m_Mes = snd k, Consumo_KWh = c k, Horas_Trabalhadas = h k\<rparr>) ks) = ks"
  by (induction ks) auto

text \<open>
  C5. The monthly table has exactly one row for every (year, month label) that is the key
  of some sample, and no other row: a month without samples is absent. The consumption of
  a row is the sum, over the samples of its key, of power times step for the samples whose
  power is strictly above the threshold and of 0 for the others; its hours are the sum of
  the step over the same samples. Here the power is the electric power with a missing
  value read as 0. Two samples five minutes apart, of 10 kW and 20 kW, in one month, with
  threshold 0, get the step of 5 minutes and give the single row of 2.5 kWh and 1/6 hour.
\<close>

theorem agregar_soma_por_mes:
  "set (map (\<lambda>m. (m_Ano m, m_Mes m)) (agregar_consumo_e_horas_chiller yo mo parsed thr)) =
     {k. \<exists>r \<in> set parsed. chave_mes yo mo r = Some k}
   \<and> distinct (map (\<lambda>m. (m_Ano m, m_Mes m)) (agregar_consumo_e_horas_chiller yo mo parsed thr))
   \<and> (\<forall>m \<in> set (agregar_consumo_e_horas_chiller yo mo parsed thr).
        Consumo_KWh m =
          sum_list (map (\<lambda>r. if pot r > thr then pot r * step_h r else 0)
                        (filter (\<lambda>r. chave_mes yo mo r = Some (m_Ano m, m_Mes m)) parsed))
        \<and> Horas_Trabalhadas m =
          sum_list (map (\<lambda>r. if pot r > thr then step_h r else 0)
                        (filter (\<lambda>r. chave_mes yo mo r = Some (m_Ano m, m_Mes m)) parsed)))
   \<and> (numero_mes_para_nome_pt_br (mo t) = Some nome \<and> yo (t + 300000000000) = yo t
        \<and> mo (t + 300000000000) = mo t \<longrightarrow>
        estimar_intervalo_de_amostragem_minutos [Some t, Some (t + 300000000000)] = 5
        \<and> agregar_consumo_e_horas_chiller yo mo
             (carregar_amostras_chiller
                [\<lparr>dt = Some t, Pot_Elet_KW = Num 10, Pot_Frig_KW = f1, COP = c1\<rparr>,
                 \<lparr>dt = Some (t + 300000000000), Pot_Elet_KW = Num 20, Pot_Frig_KW = f2, COP = c2\<rparr>]) 0
           = [\<lparr>m_Ano = yo t, m_Mes = nome, Consumo_KWh = 5 / 2, Horas_Trabalhadas = 1 / 6\<rparr>])"
proof (intro conjI impI ballI)
  let ?F = "\<lambda>k. \<lparr>m_Ano = fst k, m_Mes = snd k,
      Consumo_KWh = sum_list (map (kwh_linha thr) (filter (\<lambda>r. chave_mes yo mo r = Some k) parsed)),
      Horas_Trabalhadas = sum_list (map (h_linha thr) (filter (\<lambda>r. chave_mes yo mo r = Some k) parsed))\<rparr>"
  let ?ks = "remdups (List.map_filter (chave_mes yo mo) parsed)"
  let ?ms = "agregar_consumo_e_horas_chiller yo mo parsed thr"
  have ms: "?ms = sort_key (\<lambda>m. (m_Ano m, ordem_mes (m_Mes m))) (map ?F ?ks)"
    by (rule agregar_eq)
  have keys: "map (\<lambda>m. (m_Ano m, m_Mes m)) (map ?F ?ks) = ?ks"
    by (rule agregar_chaves)
  have "set (map (\<lambda>m. (m_Ano m, m_Mes m)) ?ms) = set (map (\<lambda>m. (m_Ano m, m_Mes m)) (map ?F ?ks))"
    unfolding ms by (simp only: set_map set_sort)
  then show "set (map (\<lambda>m. (m_Ano m, m_Mes m)) ?ms) = {k. \<exists>r \<in> set parsed. chave_mes yo mo r = Some k}"
    unfolding keys by (simp add: set_map_filter)
  have "distinct (map (\<lambda>m. (m_Ano m, m_Mes m)) ?ms) \<longleftrightarrow> distinct (map (\<lambda>m. (m_Ano m, m_Mes m)) (map ?F ?ks))"
    unfolding ms by (rule distinct_map_sort_key)
  then show "distinct (map (\<lambda>m. (m_Ano m, m_Mes m)) ?ms)"
    unfolding keys by simp
  fix m
  assume "m \<in> set ?ms"
  then have "m \<in> set (map ?F ?ks)"
    unfolding ms by (simp only: set_sort)
  then obtain k where m: "m = ?F k" by auto
  show "Consumo_KWh m =
          sum_list (map (\<lambda>r. if pot r > thr then pot r * step_h r else 0)
                        (filter (\<lambda>r. chave_mes yo mo r = Some (m_Ano m, m_Mes m)) parsed))"
    unfolding m by (simp add: kwh_linha_def [abs_def])
  show "Horas_Trabalhadas m =
          sum_list (map (\<lambda>r. if pot r > thr then step_h r else 0)
                        (filter (\<lambda>r. chave_mes yo mo r = Some (m_Ano m, m_Mes m)) parsed))"
    unfolding m by (simp add: h_linha_def [abs_def])
next
  assume a: "numero_mes_para_nome_pt_br (mo t) = Some nome \<and> yo (t + 300000000000) = yo t
        \<and> mo (t + 300000000000) = mo t"
  have dv: "deltas_validos [Some t, Some (t + 300000000000)] = [5]"
    by (simp add: deltas_validos_def minutos_def)
  have c5: "candidatos ! argmin (map (\<lambda>c. \<bar>c - 5\<bar>) candidatos) = 5"
    by (simp add: candidatos_def)
  show e: "estimar_intervalo_de_amostragem_minutos [Some t, Some (t + 300000000000)] = 5"
    by (simp add: estimar_intervalo_de_amostragem_minutos_def dv mediana_um c5)
  have car: "carregar_amostras_chiller
                [\<lparr>dt = Some t, Pot_Elet_KW = Num 10, Pot_Frig_KW = f1, COP = c1\<rparr>,
                 \<lparr>dt = Some (t + 300000000000), Pot_Elet_KW = Num 20, Pot_Frig_KW = f2, COP = c2\<rparr>]
        = [\<lparr>dt = Some t, Pot_Elet_KW = Num 10, Pot_Frig_KW = f1, COP = c1, step_h = 1 / 12\<rparr>,
           \<lparr>dt = Some (t + 300000000000), Pot_Elet_KW = Num 20, Pot_Frig_KW = f2, COP = c2, step_h = 1 / 12\<rparr>]"
    by (simp add: carregar_amostras_chiller_def e)
  show "agregar_consumo_e_horas_chiller yo mo
             (carregar_amostras_chiller
                [\<lparr>dt = Some t, Pot_Elet_KW = Num 10, Pot_Frig_KW = f1, COP = c1\<rparr>,
                 \<lparr>dt = Some (t + 300000000000), Pot_Elet_KW = Num 20, Pot_Frig_KW = f2, COP = c2\<rparr>]) 0
           = [\<lparr>m_Ano = yo t, m_Mes = nome, Consumo_KWh = 5 / 2, Horas_Trabalhadas = 1 / 6\<rparr>]"
    using a unfolding car
    by (simp add: agregar_eq List.map_filter_def chave_mes_def kwh_linha_def h_linha_def pot_def)
qed


lemma numero_mes_1_2:
  "numero_mes_para_nome_pt_br 1 = Some ''Janeiro''" "numero_mes_para_nome_pt_br 2 = Some ''Fevereiro''"
  by (simp_all add: numero_mes_para_nome_pt_br_def MES_NUM_PARA_PT_def)

lemma ordem_mes_1_2: "ordem_mes ''Janeiro'' = 0" "ordem_mes ''Fevereiro'' = 1"
  by (simp_all add: ordem_mes_def MESES_ORDEM_def)

lemma estimar_amostras_ex: "estimar_intervalo_de_amostragem_minutos (map dt amostras_ex) = 5"
proof -
  have dv: "deltas_validos (map dt amostras_ex) = [5]"
    by (simp add: amostras_ex_def deltas_validos_def minutos_def)
  have c5: "candidatos ! argmin (map (\<lambda>c. \<bar>c - 5\<bar>) candidatos) = 5"
    by (simp add: candidatos_def)
  show ?thesis
    by (simp add: estimar_intervalo_de_amostragem_minutos_def dv mediana_um c5)
qed

lemma carregar_amostras_ex:
  "carregar_amostras_chiller amostras_ex =
     [\<lparr>dt = Some 1704067200000000000, Pot_Elet_KW = Num 10, Pot_Frig_KW = Num 30, COP = Num 3, step_h = 1 / 12\<rparr>,
      \<lparr>dt = Some 1704067500000000000, Pot_Elet_KW = Num 20, Pot_Frig_KW = Num 30, COP = Num 3, step_h = 1 / 12\<rparr>,
      \<lparr>dt = Some 1706745600000000000, Pot_Elet_KW = NaN, Pot_Frig_KW = NaN, COP = NaN, step_h = 1 / 12\<rparr>]"
  by (simp add: carregar_amostras_chiller_def estimar_amostras_ex) (simp add: amostras_ex_def)

lemma agregar_amostras_ex:
  "agregar_consumo_e_horas_chiller ano_ex mes_ex (carregar_amostras_chiller amostras_ex) 0 =
     [\<lparr>m_Ano = 2024, m_Mes = ''Janeiro'', Consumo_KWh = 5 / 2, Horas_Trabalhadas = 1 / 6\<rparr>,
      \<lparr>m_Ano = 2024, m_Mes = ''Fevereiro'', Consumo_KWh = 0, Horas_Trabalhadas = 0\<rparr>]"
  by (simp add: agregar_eq carregar_amostras_ex List.map_filter_def chave_mes_def ano_ex_def
        mes_ex_def numero_mes_1_2 ordem_mes_1_2 kwh_linha_def h_linha_def pot_def)

theorem agregar_soma_por_mes_witness:
  "numero_mes_para_nome_pt_br (mes_ex 1704067200000000000) = Some ''Janeiro''
   \<and> ano_ex (1704067200000000000 + 300000000000) = ano_ex 1704067200000000000
   \<and> mes_ex (1704067200000000000 + 300000000000) = mes_ex 1704067200000000000
   \<and> agregar_consumo_e_horas_chiller ano_ex mes_ex
        (carregar_amostras_chiller
           [\<lparr>dt = Some 1704067200000000000, Pot_Elet_KW = Num 10, Pot_Frig_KW = NaN, COP = NaN\<rparr>,
            \<lparr>dt = Some (1704067200000000000 + 300000000000), Pot_Elet_KW = Num 20, Pot_Frig_KW = NaN, COP = NaN\<rparr>]) 0
       = [\<lparr>m_Ano = 2024, m_Mes = ''Janeiro'', Consumo_KWh = 5 / 2, Horas_Trabalhadas = 1 / 6\<rparr>]
   \<and> agregar_consumo_e_horas_chiller ano_ex mes_ex (carregar_amostras_chiller amostras_ex) 0 =
       [\<lparr>m_Ano = 2024, m_Mes = ''Janeiro'', Consumo_KWh = 5 / 2, Horas_Trabalhadas = 1 / 6\<rparr>,
        \<lparr>m_Ano = 2024, m_Mes = ''Fevereiro'', Consumo_KWh = 0, Horas_Trabalhadas = 0\<rparr>]
   \<and> {k. \<exists>r \<in> set (carregar_amostras_chiller amostras_ex). chave_mes ano_ex mes_ex r = Some k}
       = {(2024, ''Janeiro''), (2024, ''Fevereiro'')}"
  using agregar_soma_por_mes [of ano_ex mes_ex "carregar_amostras_chiller amostras_ex" 0
          1704067200000000000 "''Janeiro''" NaN NaN NaN NaN]
  by (simp add: agregar_amostras_ex mes_ex_def ano_ex_def numero_mes_1_2)


lemma sum_list_filter_zeros:
  "(\<And>x. x \<in> set xs \<Longrightarrow> \<not> Q x \<Longrightarrow> f x = (0::real)) \<Longrightarrow>
     sum_list (map f (filter P xs)) = sum_list (map f (filter (\<lambda>x. P x \<and> Q x) xs))"
  by (induction xs) auto

lemma pot_nan: "Pot_Elet_KW r = NaN \<Longrightarrow> pot r = 0"
  by (simp add: pot_def)

lemma kwh_linha_nan: "Pot_Elet_KW r = NaN \<Longrightarrow> kwh_linha thr r = 0"
  by (simp add: kwh_linha_def pot_nan)

lemma h_linha_nan: "Pot_Elet_KW r = NaN \<Longrightarrow> 0 \<le> thr \<Longrightarrow> h_linha thr r = 0"
  by (simp add: h_linha_def pot_nan)

lemma agregar_membro:
  assumes "m \<in> set (agregar_consumo_e_horas_chiller yo mo parsed thr)"
  shows "Consumo_KWh m = sum_list (map (kwh_linha thr)
                            (filter (\<lambda>r. chave_mes yo mo r = Some (m_Ano m, m_Mes m)) parsed))"
    and "Horas_Trabalhadas m = sum_list (map (h_linha thr)
                            (filter (\<lambda>r. chave_mes yo mo r = Some (m_Ano m, m_Mes m)) parsed))"
proof -
  from assms obtain k where
    "m = \<lparr>m_Ano = fst k, m_Mes = snd k,
      Consumo_KWh = sum_list (map (kwh_linha thr) (filter (\<lambda>r. chave_mes yo mo r = Some k) parsed)),
      Horas_Trabalhadas = sum_list (map (h_linha thr) (filter (\<lambda>r. chave_mes yo mo r = Some k) parsed))\<rparr>"
    unfolding agregar_eq by auto
  then show "Consumo_KWh m = sum_list (map (kwh_linha thr)
                            (filter (\<lambda>r. chave_mes yo mo r = Some (m_Ano m, m_Mes m)) parsed))"
    and "Horas_Trabalhadas m = sum_list (map (h_linha thr)
                            (filter (\<lambda>r. chave_mes yo mo r = Some (m_Ano m, m_Mes m)) parsed))"
    by simp_all
qed

text \<open>
  C10. A sample whose electric power is missing counts as power 0: it
  contributes no energy, whatever the threshold, and no operating hours when the threshold
  is not negative (as the default 0 and the value the pipeline passes). The monthly totals
  are numbers, equal to the sums over the samples whose power is known: the consumption
  for every threshold, the hours for every threshold that is not negative.
\<close>

theorem potencia_ausente_nao_contribui:
  "(Pot_Elet_KW r = NaN \<longrightarrow>
      pot r = 0 \<and> kwh_linha thr r = 0 \<and> (0 \<le> thr \<longrightarrow> h_linha thr r = 0))
   \<and> (\<forall>m \<in> set (agregar_consumo_e_horas_chiller yo mo parsed thr).
        Consumo_KWh m =
          sum_list (map (kwh_linha thr)
            (filter (\<lambda>r. chave_mes yo mo r = Some (m_Ano m, m_Mes m) \<and> Pot_Elet_KW r \<noteq> NaN) parsed)))
   \<and> (0 \<le> thr \<longrightarrow>
        (\<forall>m \<in> set (agregar_consumo_e_horas_chiller yo mo parsed thr).
           Horas_Trabalhadas m =
             sum_list (map (h_linha thr)
               (filter (\<lambda>r. chave_mes yo mo r = Some (m_Ano m, m_Mes m) \<and> Pot_Elet_KW r \<noteq> NaN) parsed))))"
proof (intro conjI impI ballI)
  assume "Pot_Elet_KW r = NaN"
  then show "pot r = 0" "kwh_linha thr r = 0"
    by (simp_all add: pot_nan kwh_linha_nan)
next
  assume "Pot_Elet_KW r = NaN" "0 \<le> thr"
  then show "h_linha thr r = 0" by (rule h_linha_nan)
next
  fix m
  assume m: "m \<in> set (agregar_consumo_e_horas_chiller yo mo parsed thr)"
  have "sum_list (map (kwh_linha thr) (filter (\<lambda>r. chave_mes yo mo r = Some (m_Ano m, m_Mes m)) parsed))
      = sum_list (map (kwh_linha thr)
            (filter (\<lambda>r. chave_mes yo mo r = Some (m_Ano m, m_Mes m) \<and> Pot_Elet_KW r \<noteq> NaN) parsed))"
    by (rule sum_list_filter_zeros) (simp add: kwh_linha_nan)
  then show "Consumo_KWh m =
          sum_list (map (kwh_linha thr)
            (filter (\<lambda>r. chave_mes yo mo r = Some (m_Ano m, m_Mes m) \<and> Pot_Elet_KW r \<noteq> NaN) parsed))"
    using agregar_membro(1) [OF m] by simp
next
  fix m
  assume thr: "0 \<le> thr"
    and m: "m \<in> set (agregar_consumo_e_horas_chiller yo mo parsed thr)"
  have "sum_list (map (h_linha thr) (filter (\<lambda>r. chave_mes yo mo r = Some (m_Ano m, m_Mes m)) parsed))
      = sum_list (map (h_linha thr)
            (filter (\<lambda>r. chave_mes yo mo r = Some (m_Ano m, m_Mes m) \<and> Pot_Elet_KW r \<noteq> NaN) parsed))"
    by (rule sum_list_filter_zeros) (simp add: h_linha_nan thr)
  then show "Horas_Trabalhadas m =
             sum_list (map (h_linha thr)
               (filter (\<lambda>r. chave_mes yo mo r = Some (m_Ano m, m_Mes m) \<and> Pot_Elet_KW r \<noteq> NaN) parsed))"
    using agregar_membro(2) [OF m] by simp
qed

theorem potencia_ausente_nao_contribui_witness:
  "Pot_Elet_KW \<lparr>dt = Some 1706745600000000000, Pot_Elet_KW = NaN, Pot_Frig_KW = NaN, COP = NaN,
                 step_h = 1 / 12\<rparr> = NaN
   \<and> (0::real) \<le> 0
   \<and> h_linha 0 \<lparr>dt = Some 1706745600000000000, Pot_Elet_KW = NaN, Pot_Frig_KW = NaN, COP = NaN,
                 step_h = 1 / 12\<rparr> = 0
   \<and> agregar_consumo_e_horas_chiller ano_ex mes_ex (carregar_amostras_chiller amostras_ex) 0 =
       [\<lparr>m_Ano = 2024, m_Mes = ''Janeiro'', Consumo_KWh = 5 / 2, Horas_Trabalhadas = 1 / 6\<rparr>,
        \<lparr>m_Ano = 2024, m_Mes = ''Fevereiro'', Consumo_KWh = 0, Horas_Trabalhadas = 0\<rparr>]"
  using potencia_ausente_nao_contribui [of
          "\<lparr>dt = Some 1706745600000000000, Pot_Elet_KW = NaN, Pot_Frig_KW = NaN, COP = NaN, step_h = 1 / 12\<rparr>"
          0 ano_ex mes_ex "carregar_amostras_chiller amostras_ex"]
  by (simp add: agregar_amostras_ex)

lemma carregar_amostra_nan_ex:
  "carregar_amostras_chiller amostra_nan_ex =
     [\<lparr>dt = Some 1704067200000000000, Pot_Elet_KW = NaN, Pot_Frig_KW = NaN, COP = NaN, step_h = 1 / 60\<rparr>]"
  by (simp add: carregar_amostras_chiller_def amostra_nan_ex_def
        estimar_intervalo_de_amostragem_minutos_def deltas_validos_def)

theorem potencia_ausente_limiar_negativo_counterexample:
  "agregar_consumo_e_horas_chiller ano_ex mes_ex (carregar_amostras_chiller amostra_nan_ex) (- 1) =
     [\<lparr>m_Ano = 2024, m_Mes = ''Janeiro'', Consumo_KWh = 0, Horas_Trabalhadas = 1 / 60\<rparr>]"
  by (simp add: agregar_eq carregar_amostra_nan_ex List.map_filter_def chave_mes_def ano_ex_def
        mes_ex_def numero_mes_1_2 kwh_linha_def h_linha_def pot_def)

subsection \<open>Monthly band\<close>

lemma py_max0_Num: "py_max0 (Num x) = Num (max 0 x)"
  by simp
















subsection \<open>Bias loader\<close>

lemma foldl_vies_passo:
  "foldl (vies_passo df_hist) vm0 meses m =
     (if m \<in> set meses \<and> 3 \<le> length (filter (\<lambda>r. p_Mes r = m) df_hist)
      then Some (mean_skipna (map p_Erro_Consumo (filter (\<lambda>r. p_Mes r = m) df_hist)))
      else vm0 m)"
proof (induction meses arbitrary: vm0)
  case Nil
  show ?case by simp
next
  case (Cons x meses)
  show ?case
    by (simp add: Cons.IH) (auto simp: vies_passo_def Let_def)
qed

lemma filter_mes_vazio:
  "m \<notin> set (map p_Mes df_hist) \<Longrightarrow> filter (\<lambda>r. p_Mes r = m) df_hist = []"
  by (induction df_hist) auto

lemma carregar_vies_mensal:
  "snd (carregar_vies_historico (Some df)) m =
     (if 6 \<le> length (filter (\<lambda>r. p_Tipo r = ''Real'') df)
         \<and> 3 \<le> length (filter (\<lambda>r. p_Mes r = m) (filter (\<lambda>r. p_Tipo r = ''Real'') df))
      then Some (mean_skipna (map p_Erro_Consumo
                   (filter (\<lambda>r. p_Mes r = m) (filter (\<lambda>r. p_Tipo r = ''Real'') df))))
      else None)"
proof -
  let ?h = "filter (\<lambda>r. p_Tipo r = ''Real'') df"
  have "3 \<le> length (filter (\<lambda>r. p_Mes r = m) ?h) \<Longrightarrow> m \<in> set (map p_Mes ?h)"
    using filter_mes_vazio [of m ?h] by fastforce
  then show ?thesis
    by (auto simp: carregar_vies_historico_def Let_def foldl_vies_passo)
qed

lemma carregar_vies_global:
  "fst (carregar_vies_historico (Some df)) =
     (if 6 \<le> length (filter (\<lambda>r. p_Tipo r = ''Real'') df)
      then Some (mean_skipna (map p_Erro_Consumo (filter (\<lambda>r. p_Tipo r = ''Real'') df)))
      else None)"
  by (simp add: carregar_vies_historico_def Let_def)


text \<open>
  C3. Over the rows of type Real of the ledger: the global bias is the mean of
  the consumption error when there are at least 6 such rows, and null otherwise. The bias
  of a month is the mean of the consumption error of the rows of that month when there are
  at least 6 such rows in all and at least 3 of that month; a month has no bias of its own
  otherwise. A month without a bias of its own gets the global bias, in particular a month
  with only 2 rows. A missing ledger gives no bias at all.
\<close>

theorem carregar_vies_historico_limiares:
  "fst (carregar_vies_historico None) = None
   \<and> snd (carregar_vies_historico None) m = None
   \<and> fst (carregar_vies_historico (Some df)) =
       (if 6 \<le> length (filter (\<lambda>r. p_Tipo r = ''Real'') df)
        then Some (mean_skipna (map p_Erro_Consumo (filter (\<lambda>r. p_Tipo r = ''Real'') df)))
        else None)
   \<and> snd (carregar_vies_historico (Some df)) m =
       (if 6 \<le> length (filter (\<lambda>r. p_Tipo r = ''Real'') df)
           \<and> 3 \<le> length (filter (\<lambda>r. p_Mes r = m) (filter (\<lambda>r. p_Tipo r = ''Real'') df))
        then Some (mean_skipna (map p_Erro_Consumo
                     (filter (\<lambda>r. p_Mes r = m) (filter (\<lambda>r. p_Tipo r = ''Real'') df))))
        else None)
   \<and> (snd (carregar_vies_historico (Some df)) m = None \<longrightarrow>
        vies_get (snd (carregar_vies_historico (Some df))) m (fst (carregar_vies_historico (Some df)))
          = fst (carregar_vies_historico (Some df)))
   \<and> (length (filter (\<lambda>r. p_Mes r = m) (filter (\<lambda>r. p_Tipo r = ''Real'') df)) = 2 \<longrightarrow>
        vies_get (snd (carregar_vies_historico (Some df))) m (fst (carregar_vies_historico (Some df)))
          = fst (carregar_vies_historico (Some df)))"
proof (intro conjI impI)
  show "fst (carregar_vies_historico None) = None" "snd (carregar_vies_historico None) m = None"
    by (simp_all add: carregar_vies_historico_def)
  show "fst (carregar_vies_historico (Some df)) =
       (if 6 \<le> length (filter (\<lambda>r. p_Tipo r = ''Real'') df)
        then Some (mean_skipna (map p_Erro_Consumo (filter (\<lambda>r. p_Tipo r = ''Real'') df)))
        else None)"
    by (rule carregar_vies_global)
  show "snd (carregar_vies_historico (Some df)) m =
       (if 6 \<le> length (filter (\<lambda>r. p_Tipo r = ''Real'') df)
           \<and> 3 \<le> length (filter (\<lambda>r. p_Mes r = m) (filter (\<lambda>r. p_Tipo r = ''Real'') df))
        then Some (mean_skipna (map p_Erro_Consumo
                     (filter (\<lambda>r. p_Mes r = m) (filter (\<lambda>r. p_Tipo r = ''Real'') df))))
        else None)"
    by (rule carregar_vies_mensal)
  show "vies_get (snd (carregar_vies_historico (Some df))) m (fst (carregar_vies_historico (Some df)))
          = fst (carregar_vies_historico (Some df))"
    if "snd (carregar_vies_historico (Some df)) m = None"
    using that by (simp add: vies_get_def)
  show "vies_get (snd (carregar_vies_historico (Some df))) m (fst (carregar_vies_historico (Some df)))
          = fst (carregar_vies_historico (Some df))"
    if "length (filter (\<lambda>r. p_Mes r = m) (filter (\<lambda>r. p_Tipo r = ''Real'') df)) = 2"
  proof -
    have "snd (carregar_vies_historico (Some df)) m = None"
      using that by (simp add: carregar_vies_mensal)
    then show ?thesis by (simp add: vies_get_def)
  qed
qed

lemma ledger_ex_vies:
  "fst (carregar_vies_historico (Some ledger_ex)) = Some (Num 10)"
  "snd (carregar_vies_historico (Some ledger_ex)) ''Janeiro'' = Some (Num 20)"
  "snd (carregar_vies_historico (Some ledger_ex)) ''Fevereiro'' = None"
  by (simp_all add: carregar_vies_global carregar_vies_mensal ledger_ex_def prec_def
        mean_skipna_def media_def)

lemma ledger_ex_fevereiro:
  "length (filter (\<lambda>r. p_Mes r = ''Fevereiro'') (filter (\<lambda>r. p_Tipo r = ''Real'') ledger_ex)) = 2"
  by (simp add: ledger_ex_def prec_def)

theorem carregar_vies_historico_limiares_witness:
  "fst (carregar_vies_historico (Some ledger_ex)) = Some (Num 10)
   \<and> snd (carregar_vies_historico (Some ledger_ex)) ''Janeiro'' = Some (Num 20)
   \<and> snd (carregar_vies_historico (Some ledger_ex)) ''Fevereiro'' = None
   \<and> length (filter (\<lambda>r. p_Mes r = ''Fevereiro'') (filter (\<lambda>r. p_Tipo r = ''Real'') ledger_ex)) = 2
   \<and> vies_get (snd (carregar_vies_historico (Some ledger_ex))) ''Fevereiro''
        (fst (carregar_vies_historico (Some ledger_ex))) = Some (Num 10)"
proof -
  note t = carregar_vies_historico_limiares [of "''Fevereiro''" ledger_ex]
  from t have "length (filter (\<lambda>r. p_Mes r = ''Fevereiro'') (filter (\<lambda>r. p_Tipo r = ''Real'') ledger_ex)) = 2
      \<longrightarrow> vies_get (snd (carregar_vies_historico (Some ledger_ex))) ''Fevereiro''
            (fst (carregar_vies_historico (Some ledger_ex))) = fst (carregar_vies_historico (Some ledger_ex))"
    by blast
  with ledger_ex_fevereiro have
    "vies_get (snd (carregar_vies_historico (Some ledger_ex))) ''Fevereiro''
       (fst (carregar_vies_historico (Some ledger_ex))) = fst (carregar_vies_historico (Some ledger_ex))"
    by blast
  then show ?thesis
    by (simp add: ledger_ex_vies ledger_ex_fevereiro del: filter_filter)
qed

theorem carregar_vies_mensal_counterexample:
  "map p_Tipo ledger3_ex = [''Real'', ''Real'', ''Real'']
   \<and> map p_Mes ledger3_ex = [''Janeiro'', ''Janeiro'', ''Janeiro'']
   \<and> snd (carregar_vies_historico (Some ledger3_ex)) ''Janeiro'' = None"
  by (simp add: carregar_vies_mensal ledger3_ex_def prec_def)

subsection \<open>Bias correction of the estimates\<close>






































subsection \<open>Accuracy validator\<close>

lemma erro_pct_casos:
  "erro_pct estimado (Num 0) = INaN"
  "erro_pct estimado NaN = INaN"
  "erro_pct NaN medido = INaN"
  "y \<noteq> 0 \<Longrightarrow> erro_pct (Num x) (Num y) = INum ((x - y) / y * 100)"
  "erro_pct estimado medido \<noteq> IInf s"
proof -
  show "erro_pct estimado (Num 0) = INaN"
    by (simp add: erro_pct_def)
  show "erro_pct estimado NaN = INaN"
    by (simp add: erro_pct_def)
  show "erro_pct NaN medido = INaN"
    by (cases medido) (simp_all add: erro_pct_def)
  show "y \<noteq> 0 \<Longrightarrow> erro_pct (Num x) (Num y) = INum ((x - y) / y * 100)"
    by (simp add: erro_pct_def)
  show "erro_pct estimado medido \<noteq> IInf s"
    by (cases estimado; cases medido) (auto simp: erro_pct_def)
qed

lemma fator_utilizacao_casos:
  "p * h = 0 \<Longrightarrow> fator_utilizacao consumo (Num p) (Num h) = INaN"
  "fator_utilizacao consumo NaN horas = INaN"
  "fator_utilizacao consumo potencia NaN = INaN"
  "fator_utilizacao NaN potencia horas = INaN"
  "p * h \<noteq> 0 \<Longrightarrow> fator_utilizacao (Num c) (Num p) (Num h) = INum (c / (p * h))"
  "fator_utilizacao consumo potencia horas \<noteq> IInf s"
proof -
  show "p * h = 0 \<Longrightarrow> fator_utilizacao consumo (Num p) (Num h) = INaN"
    by (simp add: fator_utilizacao_def)
  show "fator_utilizacao consumo NaN horas = INaN"
    by (simp add: fator_utilizacao_def)
  show "fator_utilizacao consumo potencia NaN = INaN"
    by (cases potencia) (simp_all add: fator_utilizacao_def)
  show "fator_utilizacao NaN potencia horas = INaN"
    by (cases potencia; cases horas) (simp_all add: fator_utilizacao_def)
  show "p * h \<noteq> 0 \<Longrightarrow> fator_utilizacao (Num c) (Num p) (Num h) = INum (c / (p * h))"
    by (simp add: fator_utilizacao_def)
  show "fator_utilizacao consumo potencia horas \<noteq> IInf s"
    by (cases consumo; cases potencia; cases horas) (auto simp: fator_utilizacao_def)
qed

text \<open>Without the replacement of 0 the division would give an infinity.\<close>

lemma np_div_por_zero: "np_div (Num 5) (Num 0) = IInf True"
  by simp

lemma merge_inner_product:
  "merge_inner reais estimados =
     filter (\<lambda>(r, e). s_Ano e = h_Ano r \<and> s_Mes e = h_Mes r) (List.product reais estimados)"
  unfolding merge_inner_def
  by (induction reais) (simp_all add: filter_map comp_def)

lemma product_map:
  "List.product (map f xs) (map g ys) = map (\<lambda>(x, y). (f x, g y)) (List.product xs ys)"
  by (induction xs) (simp_all add: comp_def)

lemma acuracia_mset:
  assumes "set [col_Mes, col_Ano, col_Consumo, col_Horas, col_Temp, col_Potencia, col_COP, col_CO2]
             \<subseteq> set (h_columns df_real)"
  shows "\<exists>out. atualizar_historico_acuracia df_real df_estimado = Some out
     \<and> mset out =
         image_mset (\<lambda>(r, e). comparar (r\<lparr>h_Mes := normalizar_mes (h_Mes r)\<rparr>) e)
           (filter_mset (\<lambda>(r, e). h_Ano r = s_Ano e \<and> normalizar_mes (h_Mes r) = normalizar_mes (s_Mes e))
              (mset (List.product (h_rows df_real) df_estimado)))"
proof -
  let ?n = "\<lambda>r. r\<lparr>h_Mes := normalizar_mes (h_Mes r)\<rparr>"
  let ?m = "\<lambda>e. e\<lparr>s_Mes := normalizar_mes (s_Mes e)\<rparr>"
  let ?out = "sort_key (\<lambda>a. (a_Ano a, codigo_categoria (a_Mes a)))
                (map (\<lambda>(r, e). comparar r e) (merge_inner (map ?n (h_rows df_real)) (map ?m df_estimado)))"
  have c: "comparar r (e\<lparr>s_Mes := x\<rparr>) = comparar r e" for r e x
    by (simp add: comparar_def)
  have out: "atualizar_historico_acuracia df_real df_estimado = Some ?out"
    using assms by (simp add: atualizar_historico_acuracia_def Let_def)
  have l: "map (\<lambda>(r, e). comparar r e) (merge_inner (map ?n (h_rows df_real)) (map ?m df_estimado))
        = map (\<lambda>(r, e). comparar (?n r) e)
            (filter (\<lambda>(r, e). h_Ano r = s_Ano e \<and> normalizar_mes (h_Mes r) = normalizar_mes (s_Mes e))
               (List.product (h_rows df_real) df_estimado))"
    unfolding merge_inner_product product_map filter_map map_map
    by (rule arg_cong2 [where f = map]) (auto simp: fun_eq_iff c intro!: filter_cong)
  have "mset ?out = mset (map (\<lambda>(r, e). comparar r e)
           (merge_inner (map ?n (h_rows df_real)) (map ?m df_estimado)))"
    by simp
  also have "\<dots> = image_mset (\<lambda>(r, e). comparar (?n r) e)
           (filter_mset (\<lambda>(r, e). h_Ano r = s_Ano e \<and> normalizar_mes (h_Mes r) = normalizar_mes (s_Mes e))
              (mset (List.product (h_rows df_real) df_estimado)))"
    unfolding l by simp
  finally show ?thesis using out by blast
qed


text \<open>
  C8. With the columns of the history table present the accuracy table is always produced
  (no exception), and it holds one row for every pair of a history row and an estimate row
  of the same year and the same month label (capitalised and stripped), and no other row.
  The row of a pair carries the real values of the history row and the estimated values of
  the estimate row, and its metrics are computed from them: each percentage error is
  (estimated - real) / real * 100 when both are numbers and the real value is not zero, and
  null when the real value is exactly zero or a value is missing; the utilization factor is
  consumption / (average power * hours) when the three are numbers and the product is not
  zero, and null when the product is exactly zero or a value is missing. No metric is ever
  an infinity.
\<close>

theorem acuracia_sem_divisao_por_zero:
  assumes "set [col_Mes, col_Ano, col_Consumo, col_Horas, col_Temp, col_Potencia, col_COP, col_CO2]
             \<subseteq> set (h_columns df_real)"
  shows "(\<exists>out. atualizar_historico_acuracia df_real df_estimado = Some out
           \<and> mset out =
               image_mset (\<lambda>(r, e). comparar (r\<lparr>h_Mes := normalizar_mes (h_Mes r)\<rparr>) e)
                 (filter_mset (\<lambda>(r, e). h_Ano r = s_Ano e
                                  \<and> normalizar_mes (h_Mes r) = normalizar_mes (s_Mes e))
                    (mset (List.product (h_rows df_real) df_estimado))))
     \<and> a_Ano (comparar hr es) = h_Ano hr \<and> a_Mes (comparar hr es) = categoria (h_Mes hr)
     \<and> a_Tipo (comparar hr es) = s_Tipo es
     \<and> Consumo_Real (comparar hr es) = h_Consumo hr
     \<and> Consumo_Estimado (comparar hr es) = s_Consumo_Esperado es
     \<and> Horas_Reais (comparar hr es) = h_Horas hr
     \<and> Horas_Estimadas_a (comparar hr es) = s_Horas_Estimadas es
     \<and> Temp_Real (comparar hr es) = h_Temp hr
     \<and> Temp_Estimada_a (comparar hr es) = s_Temp_Estimada es
     \<and> Potencia_Media (comparar hr es) = h_Potencia_Media hr
     \<and> Erro_Consumo (comparar hr es) = erro_pct (s_Consumo_Esperado es) (h_Consumo hr)
     \<and> Erro_Horas (comparar hr es) = erro_pct (s_Horas_Estimadas es) (h_Horas hr)
     \<and> Erro_Temp (comparar hr es) = erro_pct (s_Temp_Estimada es) (h_Temp hr)
     \<and> Fator_Utilizacao (comparar hr es) =
         fator_utilizacao (h_Consumo hr) (h_Potencia_Media hr) (h_Horas hr)
     \<and> erro_pct estimado (Num 0) = INaN
     \<and> (y \<noteq> 0 \<longrightarrow> erro_pct (Num x) (Num y) = INum ((x - y) / y * 100))
     \<and> erro_pct estimado NaN = INaN \<and> erro_pct NaN medido = INaN
     \<and> erro_pct estimado medido \<noteq> IInf s
     \<and> (p * h = 0 \<longrightarrow> fator_utilizacao consumo (Num p) (Num h) = INaN)
     \<and> (p' * h' \<noteq> 0 \<longrightarrow> fator_utilizacao (Num c) (Num p') (Num h') = INum (c / (p' * h')))
     \<and> fator_utilizacao consumo NaN horas = INaN \<and> fator_utilizacao consumo potencia NaN = INaN
     \<and> fator_utilizacao NaN potencia horas = INaN
     \<and> fator_utilizacao consumo potencia horas \<noteq> IInf s"
proof -
  note t = acuracia_mset [OF assms, of df_estimado]
  have campos: "a_Ano (comparar hr es) = h_Ano hr" "a_Mes (comparar hr es) = categoria (h_Mes hr)"
    "a_Tipo (comparar hr es) = s_Tipo es"
    "Consumo_Real (comparar hr es) = h_Consumo hr"
    "Consumo_Estimado (comparar hr es) = s_Consumo_Esperado es"
    "Horas_Reais (comparar hr es) = h_Horas hr"
    "Horas_Estimadas_a (comparar hr es) = s_Horas_Estimadas es"
    "Temp_Real (comparar hr es) = h_Temp hr"
    "Temp_Estimada_a (comparar hr es) = s_Temp_Estimada es"
    "Potencia_Media (comparar hr es) = h_Potencia_Media hr"
    "Erro_Consumo (comparar hr es) = erro_pct (s_Consumo_Esperado es) (h_Consumo hr)"
    "Erro_Horas (comparar hr es) = erro_pct (s_Horas_Estimadas es) (h_Horas hr)"
    "Erro_Temp (comparar hr es) = erro_pct (s_Temp_Estimada es) (h_Temp hr)"
    "Fator_Utilizacao (comparar hr es) =
         fator_utilizacao (h_Consumo hr) (h_Potencia_Media hr) (h_Horas hr)"
    by (simp_all add: comparar_def)
  have e2: "y \<noteq> 0 \<longrightarrow> erro_pct (Num x) (Num y) = INum ((x - y) / y * 100)"
    by (simp add: erro_pct_casos(4))
  have f1: "p * h = 0 \<longrightarrow> fator_utilizacao consumo (Num p) (Num h) = INaN"
    using fator_utilizacao_casos(1) [of p h consumo] by blast
  have f2: "p' * h' \<noteq> 0 \<longrightarrow> fator_utilizacao (Num c) (Num p') (Num h') = INum (c / (p' * h'))"
    using fator_utilizacao_casos(5) [of p' h' c] by blast
  show ?thesis
    by (intro conjI t campos e2 f1 f2 erro_pct_casos(1,2,3,5) fator_utilizacao_casos(2,3,4,6))
qed

lemma normalizar_mes_exs:
  "normalizar_mes ''janeiro '' = ''Janeiro''" "normalizar_mes ''Janeiro'' = ''Janeiro''"
  by (simp_all add: normalizar_mes_def strip_def isspace_def upper_char_def lower_def lower_char_def
        char_of_def bit_Suc_0_iff)

lemma categoria_janeiro: "categoria ''Janeiro'' = Some ''Janeiro''"
  by (simp add: categoria_def MESES_ORDEM_def)

lemma acuracia_ex:
  "atualizar_historico_acuracia df_zero_ex estimados_ex =
     Some [\<lparr>a_Ano = 2021, a_Mes = Some ''Janeiro'', a_Tipo = ''Real'',
            Consumo_Real = Num 0, Consumo_Estimado = Num 5, Erro_Consumo = INaN,
            Horas_Reais = Num 0, Horas_Estimadas_a = Num 8, Erro_Horas = INaN,
            Temp_Real = Num 20, Temp_Estimada_a = Num 22, Erro_Temp = INum 10,
            Potencia_Media = Num 2, Fator_Utilizacao = INaN, COP_Medio = Num 3, CO2_Emitido = NaN\<rparr>]"
  by (simp add: atualizar_historico_acuracia_def df_zero_ex_def colunas_hist_def estimados_ex_def
        linha_hist_def normalizar_mes_exs merge_inner_def comparar_def erro_pct_def
        fator_utilizacao_def categoria_janeiro)

theorem acuracia_sem_divisao_por_zero_witness:
  "atualizar_historico_acuracia df_zero_ex estimados_ex =
     Some [\<lparr>a_Ano = 2021, a_Mes = Some ''Janeiro'', a_Tipo = ''Real'',
            Consumo_Real = Num 0, Consumo_Estimado = Num 5, Erro_Consumo = INaN,
            Horas_Reais = Num 0, Horas_Estimadas_a = Num 8, Erro_Horas = INaN,
            Temp_Real = Num 20, Temp_Estimada_a = Num 22, Erro_Temp = INum 10,
            Potencia_Media = Num 2, Fator_Utilizacao = INaN, COP_Medio = Num 3, CO2_Emitido = NaN\<rparr>]
   \<and> Erro_Consumo (comparar (linha_hist 2021 ''Janeiro'' 0 0 20) (hd estimados_ex)) = erro_pct (Num 5) (Num 0)
   \<and> erro_pct (Num 5) (Num 0) = INaN
   \<and> erro_pct (Num 22) (Num 20) = INum 10
   \<and> fator_utilizacao (Num 0) (Num 2) (Num 0) = INaN
   \<and> fator_utilizacao (Num 6) (Num 2) (Num 4) = INum (3 / 4)"
proof -
  have cols: "set [col_Mes, col_Ano, col_Consumo, col_Horas, col_Temp, col_Potencia, col_COP, col_CO2]
                \<subseteq> set (h_columns df_zero_ex)"
    by (simp add: df_zero_ex_def colunas_hist_def)
  have nz: "(20 :: real) \<noteq> 0" "(2 :: real) * 4 \<noteq> 0" "(2 :: real) * 0 = 0"
    by simp_all
  note t = acuracia_sem_divisao_por_zero [OF cols, of estimados_ex
             "linha_hist 2021 ''Janeiro'' 0 0 20" "hd estimados_ex" "Num 5" 20 22 NaN True 2 0 "Num 0" 2 4 6]
  have e0: "erro_pct (Num 5) (Num 0) = INaN" using t by blast
  have e1: "erro_pct (Num 22) (Num 20) = INum ((22 - 20) / 20 * 100)" using t nz(1) by blast
  have f0: "fator_utilizacao (Num 0) (Num 2) (Num 0) = INaN" using t nz(3) by blast
  have f1: "fator_utilizacao (Num 6) (Num 2) (Num 4) = INum (6 / (2 * 4))" using t nz(2) by blast
  have c: "Erro_Consumo (comparar (linha_hist 2021 ''Janeiro'' 0 0 20) (hd estimados_ex)) =
             erro_pct (s_Consumo_Esperado (hd estimados_ex)) (h_Consumo (linha_hist 2021 ''Janeiro'' 0 0 20))"
    using t by blast
  have c': "Erro_Consumo (comparar (linha_hist 2021 ''Janeiro'' 0 0 20) (hd estimados_ex)) =
             erro_pct (Num 5) (Num 0)"
    using c by (simp add: estimados_ex_def linha_hist_def)
  have e1': "erro_pct (Num 22) (Num 20) = INum 10"
    using e1 by simp
  have f1': "fator_utilizacao (Num 6) (Num 2) (Num 4) = INum (3 / 4)"
    using f1 by simp
  show ?thesis
    by (intro conjI acuracia_ex c' e0 e1' f0 f1')
qed


subsection \<open>Robust historical mean\<close>

lemma quantil_2: "quantil (1 / 4) [10, 20] = 25 / 2" "quantil (3 / 4) [10, 20] = 35 / 2"
  by (simp_all add: quantil_def Let_def)

lemma quantil_3: "quantil (1 / 4) [1000, 10, 20] = 15" "quantil (3 / 4) [1000, 10, 20] = 510"
  by (simp_all add: quantil_def Let_def)

lemma quantil_4: "quantil (1 / 4) [10, 11, 12, 13] = 43 / 4" "quantil (3 / 4) [10, 11, 12, 13] = 49 / 4"
  by (simp_all add: quantil_def Let_def)

lemma quantil_5: "quantil (1 / 4) [10, 11, 1000, 12, 13] = 11" "quantil (3 / 4) [10, 11, 1000, 12, 13] = 13"
  by (simp_all add: quantil_def Let_def)

lemma limites_2: "limite_inf [Num 10, Num 20] = Num 5" "limite_sup [Num 10, Num 20] = Num 25"
  by (simp_all add: limite_inf_def limite_sup_def quantile_def quantil_2)

lemma limites_3:
  "limite_inf [Num 1000, Num 10, Num 20] = Num (- 1455 / 2)"
  "limite_sup [Num 1000, Num 10, Num 20] = Num (2505 / 2)"
  by (simp_all add: limite_inf_def limite_sup_def quantile_def quantil_3)

lemma limites_4:
  "limite_inf [Num 10, Num 11, Num 12, Num 13] = Num (17 / 2)"
  "limite_sup [Num 10, Num 11, Num 12, Num 13] = Num (29 / 2)"
  by (simp_all add: limite_inf_def limite_sup_def quantile_def quantil_4)

lemma limites_5:
  "limite_inf [Num 10, Num 11, Num 1000, Num 12, Num 13] = Num 8"
  "limite_sup [Num 10, Num 11, Num 1000, Num 12, Num 13] = Num 16"
  by (simp_all add: limite_inf_def limite_sup_def quantile_def quantil_5)

lemma valor_Temp: "valor col_Temp r = h_Temp r"
  by (simp add: valor_def col_Temp_def col_Consumo_def col_Horas_def col_Potencia_def col_COP_def)

lemma media_historica_nucleo:
  assumes "col_Mes \<in> set (h_columns df)" "col_Ano \<in> set (h_columns df)" "c \<in> set (h_columns df)"
    and "df_mes_de df m a = dm" "dm \<noteq> []" "filtrar_iqr c dm = fl" "fl \<noteq> []"
  shows "media_historica_corrigida df c m a =
           Inr (Some (np_average (map (valor c) fl)
                        (map (\<lambda>r. max 1 ((h_Ano r - min_list_int (map h_Ano fl)) + 1)) fl)))"
  using assms by (simp add: media_historica_corrigida_def Let_def)

lemma colunas_series:
  "col_Mes \<in> set colunas_hist" "col_Ano \<in> set colunas_hist" "col_Temp \<in> set colunas_hist"
  by (simp_all add: colunas_hist_def)

lemma df_mes_exs:
  "df_mes_de df_serie2_ex ''Abril'' 2023 = serie2_ex"
  "df_mes_de df_serie2_outlier_ex ''Abril'' 2023 = linha_hist 2020 ''Abril'' 1 1 1000 # serie2_ex"
  "df_mes_de df_serie4_ex ''Abril'' 2023 = serie4_ex"
  "df_mes_de df_serie4_outlier_ex ''Abril'' 2023 =
     take 2 serie4_ex @ linha_hist 2018 ''Abril'' 1 1 1000 # drop 2 serie4_ex"
  by (simp_all add: df_mes_de_def df_serie2_ex_def df_serie2_outlier_ex_def df_serie4_ex_def
        df_serie4_outlier_ex_def serie2_ex_def serie4_ex_def linha_hist_def)

lemma filtrar_exs:
  "filtrar_iqr col_Temp serie2_ex = serie2_ex"
  "filtrar_iqr col_Temp (linha_hist 2020 ''Abril'' 1 1 1000 # serie2_ex) =
     linha_hist 2020 ''Abril'' 1 1 1000 # serie2_ex"
  "filtrar_iqr col_Temp serie4_ex = serie4_ex"
  "filtrar_iqr col_Temp (take 2 serie4_ex @ linha_hist 2018 ''Abril'' 1 1 1000 # drop 2 serie4_ex) =
     serie4_ex"
  by (simp_all add: filtrar_iqr_def serie2_ex_def serie4_ex_def linha_hist_def valor_Temp na_cerca_def
        limites_2 limites_3 limites_4 limites_5)

lemma media_serie2:
  "media_historica_corrigida df_serie2_ex col_Temp ''Abril'' 2023 = Inr (Some (Num (50 / 3)))"
  by (subst media_historica_nucleo [OF _ _ _ df_mes_exs(1) _ filtrar_exs(1)])
     (simp_all add: df_serie2_ex_def colunas_series serie2_ex_def linha_hist_def valor_Temp
        min_list_int_def np_average_def)

lemma media_serie2_outlier:
  "media_historica_corrigida df_serie2_outlier_ex col_Temp ''Abril'' 2023 = Inr (Some (Num 180))"
  by (subst media_historica_nucleo [OF _ _ _ df_mes_exs(2) _ filtrar_exs(2)])
     (simp_all add: df_serie2_outlier_ex_def colunas_series serie2_ex_def linha_hist_def valor_Temp
        min_list_int_def np_average_def)

lemma media_serie4:
  "media_historica_corrigida df_serie4_ex col_Temp ''Abril'' 2023 = Inr (Some (Num 12))"
  by (subst media_historica_nucleo [OF _ _ _ df_mes_exs(3) _ filtrar_exs(3)])
     (simp_all add: df_serie4_ex_def colunas_series serie4_ex_def linha_hist_def valor_Temp
        min_list_int_def np_average_def)

lemma media_serie4_outlier:
  "media_historica_corrigida df_serie4_outlier_ex col_Temp ''Abril'' 2023 = Inr (Some (Num 12))"
  by (subst media_historica_nucleo [OF _ _ _ df_mes_exs(4) _ filtrar_exs(4)])
     (simp_all add: df_serie4_outlier_ex_def colunas_series serie4_ex_def linha_hist_def valor_Temp
        min_list_int_def np_average_def)


lemma filtrar_iqr_nil: "filtrar_iqr c [] = []"
  by (simp add: filtrar_iqr_def)

lemma media_via_filtrado:
  "media_historica_corrigida df c m a =
     (if col_Mes \<notin> set (h_columns df) then Inl (KeyError col_Mes)
      else if col_Ano \<notin> set (h_columns df) then Inl (KeyError col_Ano)
      else if c \<notin> set (h_columns df) \<or> filtrar_iqr c (df_mes_de df m a) = [] then Inr None
      else Inr (Some (np_average (map (valor c) (filtrar_iqr c (df_mes_de df m a)))
                        (map (\<lambda>r. max 1 ((h_Ano r
                                  - min_list_int (map h_Ano (filtrar_iqr c (df_mes_de df m a)))) + 1))
                             (filtrar_iqr c (df_mes_de df m a))))))"
  by (auto simp: media_historica_corrigida_def Let_def filtrar_iqr_nil)

text \<open>
  C6. The quartiles and the fence are those of the series that includes the
  added value. Adding one row to a history leaves the robust historical mean unchanged
  when the added value is outside that fence and that fence keeps the same values of the
  original series as the fence of the original series does.
\<close>

theorem media_historica_valor_fora_da_cerca:
  assumes "h_columns df' = h_columns df"
    and "h_rows df = xs @ ys" and "h_rows df' = xs @ r # ys"
    and "\<not> na_cerca (map (valor c) (df_mes_de df' m a)) (valor c r)"
    and "\<forall>x \<in> set (df_mes_de df m a).
           na_cerca (map (valor c) (df_mes_de df' m a)) (valor c x)
             \<longleftrightarrow> na_cerca (map (valor c) (df_mes_de df m a)) (valor c x)"
  shows "media_historica_corrigida df' c m a = media_historica_corrigida df c m a"
proof -
  let ?P = "\<lambda>r. h_Mes r = m \<and> h_Ano r < a"
  define F' where "F' = (\<lambda>x. na_cerca (map (valor c) (df_mes_de df' m a)) (valor c x))"
  define F where "F = (\<lambda>x. na_cerca (map (valor c) (df_mes_de df m a)) (valor c x))"
  have out: "\<not> F' r"
    using assms(4) by (simp add: F'_def)
  have same: "\<And>x. x \<in> set (df_mes_de df m a) \<Longrightarrow> F' x = F x"
    using assms(5) by (simp add: F'_def F_def)
  have dm: "df_mes_de df m a = filter ?P xs @ filter ?P ys"
    by (simp add: df_mes_de_def assms(2))
  have dm': "df_mes_de df' m a = filter ?P xs @ (if ?P r then [r] else []) @ filter ?P ys"
    by (simp add: df_mes_de_def assms(3))
  have "filter F' (filter ?P xs @ (if ?P r then [r] else []) @ filter ?P ys)
          = filter F' (filter ?P xs @ filter ?P ys)"
    using out by simp
  then have "filter F' (df_mes_de df' m a) = filter F' (df_mes_de df m a)"
    by (simp only: dm dm')
  also have "\<dots> = filter F (df_mes_de df m a)"
    by (rule filter_cong) (simp_all add: same)
  finally have "filtrar_iqr c (df_mes_de df' m a) = filtrar_iqr c (df_mes_de df m a)"
    by (simp add: filtrar_iqr_def F'_def F_def)
  then show ?thesis
    by (simp add: media_via_filtrado assms(1))
qed


lemma temps_serie4:
  "map (valor col_Temp) serie4_ex = [Num 10, Num 11, Num 12, Num 13]"
  "map (valor col_Temp) (take 2 serie4_ex @ linha_hist 2018 ''Abril'' 1 1 1000 # drop 2 serie4_ex) =
     [Num 10, Num 11, Num 1000, Num 12, Num 13]"
  "valor col_Temp (linha_hist 2018 ''Abril'' 1 1 1000) = Num 1000"
  by (simp_all add: serie4_ex_def linha_hist_def valor_Temp)

lemma cerca_serie4:
  "\<not> na_cerca [Num 10, Num 11, Num 1000, Num 12, Num 13] (Num 1000)"
  "\<forall>x \<in> set serie4_ex.
     na_cerca [Num 10, Num 11, Num 1000, Num 12, Num 13] (valor col_Temp x)
       \<longleftrightarrow> na_cerca [Num 10, Num 11, Num 12, Num 13] (valor col_Temp x)"
  by (simp_all add: na_cerca_def limites_4 limites_5 serie4_ex_def linha_hist_def valor_Temp)

theorem media_historica_valor_fora_da_cerca_witness:
  "media_historica_corrigida df_serie4_outlier_ex col_Temp ''Abril'' 2023 =
     media_historica_corrigida df_serie4_ex col_Temp ''Abril'' 2023
   \<and> media_historica_corrigida df_serie4_ex col_Temp ''Abril'' 2023 = Inr (Some (Num 12))
   \<and> \<not> na_cerca [Num 10, Num 11, Num 1000, Num 12, Num 13] (Num 1000)"
proof -
  have h1: "h_columns df_serie4_outlier_ex = h_columns df_serie4_ex"
    by (simp add: df_serie4_outlier_ex_def df_serie4_ex_def)
  have h2: "h_rows df_serie4_ex = take 2 serie4_ex @ drop 2 serie4_ex"
    by (simp add: df_serie4_ex_def)
  have h3: "h_rows df_serie4_outlier_ex =
              take 2 serie4_ex @ linha_hist 2018 ''Abril'' 1 1 1000 # drop 2 serie4_ex"
    by (simp add: df_serie4_outlier_ex_def)
  have h4: "\<not> na_cerca (map (valor col_Temp) (df_mes_de df_serie4_outlier_ex ''Abril'' 2023))
                 (valor col_Temp (linha_hist 2018 ''Abril'' 1 1 1000))"
    by (simp only: df_mes_exs temps_serie4 cerca_serie4) simp
  have h5: "\<forall>x \<in> set (df_mes_de df_serie4_ex ''Abril'' 2023).
           na_cerca (map (valor col_Temp) (df_mes_de df_serie4_outlier_ex ''Abril'' 2023)) (valor col_Temp x)
             \<longleftrightarrow> na_cerca (map (valor col_Temp) (df_mes_de df_serie4_ex ''Abril'' 2023)) (valor col_Temp x)"
    using cerca_serie4(2) by (simp only: df_mes_exs temps_serie4)
  from media_historica_valor_fora_da_cerca [OF h1 h2 h3 h4 h5] show ?thesis
    by (simp add: media_serie4 cerca_serie4(1))
qed

theorem media_historica_outlier_counterexample:
  "media_historica_corrigida df_serie2_ex col_Temp ''Abril'' 2023 = Inr (Some (Num (50 / 3)))
   \<and> media_historica_corrigida df_serie2_outlier_ex col_Temp ''Abril'' 2023 = Inr (Some (Num 180))
   \<and> h_rows df_serie2_outlier_ex = linha_hist 2020 ''Abril'' 1 1 1000 # h_rows df_serie2_ex
   \<and> map h_Temp (h_rows df_serie2_ex) = [Num 10, Num 20]
   \<and> limite_inf [Num 10, Num 20] = Num 5 \<and> limite_sup [Num 10, Num 20] = Num 25"
  by (simp add: media_serie2 media_serie2_outlier limites_2)
     (simp add: df_serie2_ex_def df_serie2_outlier_ex_def serie2_ex_def linha_hist_def)

end
